theory Spec2Isabelle
  imports Complex_Main "HOL-Library.List_Lexorder" "HOL-Library.Char_ord"
begin

section \<open>Conventions of the embedding\<close>

text \<open>
  The TypeScript sources compute with IEEE doubles. Where a result is compared with a
  threshold, floored into a grid cell or combined into a score, the embedding computes
  with the real numbers they approximate: \<open>+\<close>, \<open>*\<close>, \<open>Math.sin\<close>, \<open>Math.floor\<close> are the exact
  operations there, and a value that is not a number is \<open>NaN\<close>. The cosine similarity of the
  vector store is computed in doubles, with the rounding of every operation (section
  \<open>IEEE doubles\<close>).

  Strings are lists of 8-bit characters, read as the code units \<open>0..255\<close> of a JavaScript
  string.

  A JavaScript \<open>Map\<close> keeps its keys in insertion order, and \<open>set\<close> on a key that is present
  keeps the key's position. It is an association list with the three operations below.
  A \<open>Set\<close> is a list without repetitions, in insertion order.
\<close>

datatype number = Num real | NaN

datatype error = Error string

type_synonym ('k, 'v) js_map = "('k \<times> 'v) list"

fun map_set :: "'k \<Rightarrow> 'v \<Rightarrow> ('k, 'v) js_map \<Rightarrow> ('k, 'v) js_map" where
  "map_set k v [] = [(k, v)]"
| "map_set k v ((k', v') # m) =
     (if k = k' then (k, v) # m else (k', v') # map_set k v m)"

definition map_get :: "('k, 'v) js_map \<Rightarrow> 'k \<Rightarrow> 'v option" where
  "map_get m k = map_of m k"

definition map_delete :: "'k \<Rightarrow> ('k, 'v) js_map \<Rightarrow> ('k, 'v) js_map" where
  "map_delete k m = filter (\<lambda>kv. fst kv \<noteq> k) m"

definition map_keys :: "('k, 'v) js_map \<Rightarrow> 'k list" where
  "map_keys m = map fst m"

definition set_add :: "'a \<Rightarrow> 'a list \<Rightarrow> 'a list" where
  "set_add x xs = (if x \<in> set xs then xs else xs @ [x])"

definition set_delete :: "'a \<Rightarrow> 'a list \<Rightarrow> 'a list" where
  "set_delete x xs = removeAll x xs"


section \<open>IEEE doubles\<close>

text \<open>
  A double is a finite number, an infinity or \<open>NaN\<close>. The two zeros are one value,
  \<open>Finite 0\<close>: they are equal under \<open>===\<close>, and where the sign of a zero decides a result (a
  division by zero) the divisor is taken as \<open>+0\<close>.

  \<open>fl x\<close> is the double nearest to the real \<open>x\<close>, ties to the even significand: \<open>x\<close> is
  rounded to a multiple of the unit in the last place of its binade, \<open>2^(e - 52)\<close> with
  \<open>e = max (floor (log2 |x|)) (-1022)\<close>, and a result of magnitude \<open>2^1024\<close> or more is an
  infinity. An operation on finite doubles is the exact operation followed by \<open>fl\<close>, as
  IEEE 754 defines \<open>+\<close>, \<open>*\<close>, \<open>/\<close> and the square root.
\<close>

datatype double = Finite real | PlusInfinity | MinusInfinity | NotANumber

definition roundTiesToEven :: "real \<Rightarrow> int" where
  "roundTiesToEven q =
     (let f = \<lfloor>q\<rfloor>
      in if q - of_int f < 1 / 2 then f
         else if 1 / 2 < q - of_int f then f + 1
         else if even f then f else f + 1)"

definition fl :: "real \<Rightarrow> double" where
  "fl x =
     (if x = 0 then Finite 0
      else let e = max \<lfloor>log 2 \<bar>x\<bar>\<rfloor> (- 1022);
               ulp = 2 powr (of_int e - 52);
               y = of_int (roundTiesToEven (x / ulp)) * ulp
           in if 2 ^ 1024 \<le> \<bar>y\<bar> then (if 0 < x then PlusInfinity else MinusInfinity)
              else Finite y)"

text \<open>The operations \<open>+\<close>, \<open>*\<close>, \<open>/\<close> and \<open>Math.sqrt\<close> on doubles.\<close>

definition infinity :: "bool \<Rightarrow> double" where
  "infinity positive = (if positive then PlusInfinity else MinusInfinity)"

definition dadd :: "double \<Rightarrow> double \<Rightarrow> double" where
  "dadd a b =
     (case (a, b) of
        (Finite x, Finite y) \<Rightarrow> fl (x + y)
      | (Finite x, PlusInfinity) \<Rightarrow> PlusInfinity
      | (Finite x, MinusInfinity) \<Rightarrow> MinusInfinity
      | (PlusInfinity, Finite y) \<Rightarrow> PlusInfinity
      | (MinusInfinity, Finite y) \<Rightarrow> MinusInfinity
      | (PlusInfinity, PlusInfinity) \<Rightarrow> PlusInfinity
      | (MinusInfinity, MinusInfinity) \<Rightarrow> MinusInfinity
      | _ \<Rightarrow> NotANumber)"

definition dmul :: "double \<Rightarrow> double \<Rightarrow> double" where
  "dmul a b =
     (case (a, b) of
        (Finite x, Finite y) \<Rightarrow> fl (x * y)
      | (Finite x, PlusInfinity) \<Rightarrow> if x = 0 then NotANumber else infinity (0 < x)
      | (Finite x, MinusInfinity) \<Rightarrow> if x = 0 then NotANumber else infinity (x < 0)
      | (PlusInfinity, Finite y) \<Rightarrow> if y = 0 then NotANumber else infinity (0 < y)
      | (MinusInfinity, Finite y) \<Rightarrow> if y = 0 then NotANumber else infinity (y < 0)
      | (PlusInfinity, PlusInfinity) \<Rightarrow> PlusInfinity
      | (MinusInfinity, MinusInfinity) \<Rightarrow> PlusInfinity
      | (PlusInfinity, MinusInfinity) \<Rightarrow> MinusInfinity
      | (MinusInfinity, PlusInfinity) \<Rightarrow> MinusInfinity
      | _ \<Rightarrow> NotANumber)"

definition ddiv :: "double \<Rightarrow> double \<Rightarrow> double" where
  "ddiv a b =
     (case (a, b) of
        (Finite x, Finite y) \<Rightarrow>
          if y \<noteq> 0 then fl (x / y)
          else if x = 0 then NotANumber else infinity (0 < x)
      | (Finite x, PlusInfinity) \<Rightarrow> Finite 0
      | (Finite x, MinusInfinity) \<Rightarrow> Finite 0
      | (PlusInfinity, Finite y) \<Rightarrow> infinity (0 \<le> y)
      | (MinusInfinity, Finite y) \<Rightarrow> infinity (y < 0)
      | _ \<Rightarrow> NotANumber)"

definition dsqrt :: "double \<Rightarrow> double" where
  "dsqrt a =
     (case a of
        Finite x \<Rightarrow> if x < 0 then NotANumber else fl (sqrt x)
      | PlusInfinity \<Rightarrow> PlusInfinity
      | _ \<Rightarrow> NotANumber)"


section \<open>Geographic data types (types/geographic)\<close>

record Coordinates =
  latitude :: real
  longitude :: real

record BoundingBox =
  north :: real
  south :: real
  east :: real
  west :: real


section \<open>Spatial utilities (lib/spatial/utils.ts)\<close>

definition toRadians :: "real \<Rightarrow> real" where
  "toRadians degrees = degrees * (pi / 180)"

text \<open>
  \<open>Math.atan2(y, x)\<close>, the angle of the point \<open>(x, y)\<close>, in \<open>(-\<pi>, \<pi>]\<close>.
\<close>

definition atan2 :: "real \<Rightarrow> real \<Rightarrow> real" where
  "atan2 y x =
     (if 0 < x then arctan (y / x)
      else if x < 0 then (if 0 \<le> y then arctan (y / x) + pi else arctan (y / x) - pi)
      else if 0 < y then pi / 2
      else if y < 0 then - (pi / 2)
      else 0)"

definition calculateDistance :: "Coordinates \<Rightarrow> Coordinates \<Rightarrow> real" where
  "calculateDistance coord1 coord2 =
     (let R = 6371;
          dLat = toRadians (latitude coord2 - latitude coord1);
          dLon = toRadians (longitude coord2 - longitude coord1);
          a = sin (dLat / 2) * sin (dLat / 2)
              + cos (toRadians (latitude coord1)) * cos (toRadians (latitude coord2))
                * sin (dLon / 2) * sin (dLon / 2);
          c = 2 * atan2 (sqrt a) (sqrt (1 - a))
      in R * c)"

definition isPointInBounds :: "Coordinates \<Rightarrow> BoundingBox \<Rightarrow> bool" where
  "isPointInBounds point bounds \<longleftrightarrow>
     latitude point \<ge> south bounds \<and> latitude point \<le> north bounds \<and>
     longitude point \<ge> west bounds \<and> longitude point \<le> east bounds"

text \<open>
  \<open>createBoundingBox\<close> divides by \<open>111 * cos(latitude)\<close>. At a pole the exact cosine is
  zero and the quotient is not a finite number; the model returns \<open>None\<close> there.
\<close>

definition createBoundingBox :: "Coordinates \<Rightarrow> real \<Rightarrow> BoundingBox option" where
  "createBoundingBox center radiusKm =
     (let latDelta = radiusKm / 111;
          d = 111 * cos (toRadians (latitude center))
      in if d = 0 then None
         else let lonDelta = radiusKm / d
              in Some \<lparr> north = latitude center + latDelta,
                        south = latitude center - latDelta,
                        east = longitude center + lonDelta,
                        west = longitude center - lonDelta \<rparr>)"


section \<open>Documents (lib/rag/types.ts)\<close>

record DocMetadata =
  md_type :: string
  md_location :: "Coordinates option"
  md_bounds :: "BoundingBox option"
  md_timestamp :: string
  md_source :: string
  md_tags :: "string list"
  md_confidence :: "real option"

record SpatialContext =
  sc_nearbyFeatures :: "string list"
  sc_region :: string
  sc_climate :: string
  sc_elevation :: "real option"

record GeographicDocument =
  doc_id :: string
  doc_content :: string
  doc_metadata :: DocMetadata
  doc_embedding :: "real list option"
  doc_spatialContext :: "SpatialContext option"


section \<open>Vector store (GeographicVectorStore)\<close>

record VectorStoreOptions =
  dimensions :: nat
  spatialWeight :: real
  maxResults :: nat

text \<open>
  The grid key of the source is the string \<open>"x,y"\<close> of two integers; the model keeps
  the pair \<open>(x, y)\<close>, of which the string is an injective image.
\<close>

type_synonym grid_key = "int \<times> int"

record VectorStore =
  documents :: "(string, GeographicDocument) js_map"
  embeddings :: "(string, real list) js_map"
  spatialIndex :: "(grid_key, string list) js_map"
  options :: VectorStoreOptions

definition defaultOptions :: VectorStoreOptions where
  "defaultOptions = \<lparr> dimensions = 384, spatialWeight = 0.3, maxResults = 10 \<rparr>"

definition newVectorStore :: "VectorStoreOptions \<Rightarrow> VectorStore" where
  "newVectorStore opts =
     \<lparr> documents = [], embeddings = [], spatialIndex = [], options = opts \<rparr>"

definition addToSpatialIndex :: "string \<Rightarrow> Coordinates \<Rightarrow> VectorStore \<Rightarrow> VectorStore" where
  "addToSpatialIndex docId location st =
     (let gridSize = 0.1 :: real;
          gridX = \<lfloor>longitude location / gridSize\<rfloor>;
          gridY = \<lfloor>latitude location / gridSize\<rfloor>;
          gridKey = (gridX, gridY);
          cell = (case map_get (spatialIndex st) gridKey of None \<Rightarrow> [] | Some ds \<Rightarrow> ds)
      in st \<lparr> spatialIndex := map_set gridKey (cell @ [docId]) (spatialIndex st) \<rparr>)"

definition addDocument :: "GeographicDocument \<Rightarrow> VectorStore \<Rightarrow> VectorStore" where
  "addDocument document st =
     (let st1 = st \<lparr> documents := map_set (doc_id document) document (documents st) \<rparr>;
          st2 = (case doc_embedding document of
                   Some e \<Rightarrow> st1 \<lparr> embeddings := map_set (doc_id document) e (embeddings st1) \<rparr>
                 | None \<Rightarrow> st1)
      in case md_location (doc_metadata document) of
           Some loc \<Rightarrow> addToSpatialIndex (doc_id document) loc st2
         | None \<Rightarrow> st2)"

text \<open>
  \<open>addDocuments\<close> maps \<open>addDocument\<close> over the array. The body of \<open>addDocument\<close> has no
  \<open>await\<close>, so each call runs to completion when it is made: the documents are added in
  array order.
\<close>

definition addDocuments :: "GeographicDocument list \<Rightarrow> VectorStore \<Rightarrow> VectorStore" where
  "addDocuments docs st = fold addDocument docs st"

text \<open>
  \<open>cosineSimilarity\<close>, in doubles. The loop of the source adds the three products of the
  components at every index below \<open>a.length\<close>; the two arrays have the same length there,
  and \<open>cosineLoop\<close> walks both. The components of a vector are finite.
\<close>

fun cosineLoop :: "real list \<Rightarrow> real list \<Rightarrow> double \<times> double \<times> double
                   \<Rightarrow> double \<times> double \<times> double" where
  "cosineLoop (x # a) (y # b) (dotProduct, normA, normB) =
     cosineLoop a b (dadd dotProduct (dmul (Finite x) (Finite y)),
                     dadd normA (dmul (Finite x) (Finite x)),
                     dadd normB (dmul (Finite y) (Finite y)))"
| "cosineLoop a b acc = acc"

definition cosineSimilarity :: "real list \<Rightarrow> real list \<Rightarrow> error + double" where
  "cosineSimilarity a b =
     (if length a \<noteq> length b then Inl (Error ''Vectors must have the same length'')
      else case cosineLoop a b (Finite 0, Finite 0, Finite 0) of
             (dotProduct, normA, normB) \<Rightarrow>
               Inr (ddiv dotProduct (dmul (dsqrt normA) (dsqrt normB))))"

definition combineScores :: "real \<Rightarrow> real \<Rightarrow> real \<Rightarrow> real" where
  "combineScores similarity spatialRelevance w =
     (1 - w) * similarity + w * spatialRelevance"


section \<open>Spatial index (QuadTreeSpatialIndex)\<close>

text \<open>
  A feature carries its \<open>type\<close> tag and the \<open>coordinates\<close> that go with it: a single
  coordinate for a point, a sequence for a linestring, a sequence of rings for a polygon.
  The tag and the payload are one datatype here. The \<open>properties\<close> and \<open>metadata\<close> of a
  feature are never read by the index; \<open>properties\<close> is kept as a list of pairs.
\<close>

datatype geometry =
    Point Coordinates
  | LineString "Coordinates list"
  | Polygon "Coordinates list list"

record GeographicFeature =
  feat_id :: string
  feat_name :: string
  feat_geometry :: geometry
  feat_properties :: "(string \<times> string) list"

record QuadTreeSpatialIndex =
  features :: "(string, GeographicFeature) js_map"
  spatialGrid :: "(grid_key, string list) js_map"

definition gridSize :: real where
  "gridSize = 0.01"

definition newSpatialIndex :: QuadTreeSpatialIndex where
  "newSpatialIndex = \<lparr> features = [], spatialGrid = [] \<rparr>"

text \<open>
  \<open>getFeatureBounds\<close> starts from \<open>minLat = +\<infinity>\<close>, \<open>maxLat = -\<infinity>\<close> (and the same for the
  longitude) and folds \<open>processCoord\<close> over the coordinates. The accumulator \<open>None\<close> is
  that initial box; after the first coordinate all four bounds are finite.
\<close>

definition processCoord :: "BoundingBox option \<Rightarrow> Coordinates \<Rightarrow> BoundingBox option" where
  "processCoord acc coord =
     (case acc of
        None \<Rightarrow> Some \<lparr> north = latitude coord, south = latitude coord,
                       east = longitude coord, west = longitude coord \<rparr>
      | Some b \<Rightarrow> Some \<lparr> north = max (north b) (latitude coord),
                         south = min (south b) (latitude coord),
                         east = max (east b) (longitude coord),
                         west = min (west b) (longitude coord) \<rparr>)"

definition getFeatureBounds :: "GeographicFeature \<Rightarrow> BoundingBox option" where
  "getFeatureBounds feature =
     (case feat_geometry feature of
        Point coord \<Rightarrow> processCoord None coord
      | LineString coords \<Rightarrow> foldl processCoord None coords
      | Polygon rings \<Rightarrow> foldl (\<lambda>acc ring. foldl processCoord acc ring) None rings)"

text \<open>
  The two nested \<open>for\<close> loops over the cells \<open>minX..maxX\<close>, \<open>minY..maxY\<close>, in the order
  in which the source visits them.
\<close>

definition cellRange :: "int \<Rightarrow> int \<Rightarrow> int \<Rightarrow> int \<Rightarrow> grid_key list" where
  "cellRange minX maxX minY maxY =
     concat (map (\<lambda>x. map (\<lambda>y. (x, y)) [minY..maxY]) [minX..maxX])"

text \<open>
  For a feature without any coordinate the bounds of the source are infinite, with
  \<open>minX = +\<infinity> > maxX = -\<infinity>\<close>: the loops do not run and there is no key.
\<close>

definition getGridKeys :: "GeographicFeature \<Rightarrow> grid_key list" where
  "getGridKeys feature =
     (case feat_geometry feature of
        Point coords \<Rightarrow>
          [(\<lfloor>longitude coords / gridSize\<rfloor>, \<lfloor>latitude coords / gridSize\<rfloor>)]
      | _ \<Rightarrow>
          (case getFeatureBounds feature of
             None \<Rightarrow> []
           | Some bounds \<Rightarrow>
               cellRange \<lfloor>west bounds / gridSize\<rfloor> \<lceil>east bounds / gridSize\<rceil>
                         \<lfloor>south bounds / gridSize\<rfloor> \<lceil>north bounds / gridSize\<rceil>))"

definition gridAdd :: "string \<Rightarrow> grid_key \<Rightarrow> (grid_key, string list) js_map
                       \<Rightarrow> (grid_key, string list) js_map" where
  "gridAdd fid key grid =
     map_set key (set_add fid (case map_get grid key of None \<Rightarrow> [] | Some cell \<Rightarrow> cell)) grid"

definition insert_feature :: "GeographicFeature \<Rightarrow> QuadTreeSpatialIndex \<Rightarrow> QuadTreeSpatialIndex" where
  "insert_feature feature idx =
     \<lparr> features = map_set (feat_id feature) feature (features idx),
       spatialGrid = fold (gridAdd (feat_id feature)) (getGridKeys feature) (spatialGrid idx) \<rparr>"

text \<open>
  With infinite feature bounds (no coordinate) the test of the source is false:
  \<open>featureBounds.east = -\<infinity>\<close> is below every \<open>bounds.west\<close>.
\<close>

definition featureIntersectsBounds :: "GeographicFeature \<Rightarrow> BoundingBox \<Rightarrow> bool" where
  "featureIntersectsBounds feature bounds =
     (case feat_geometry feature of
        Point coords \<Rightarrow> isPointInBounds coords bounds
      | _ \<Rightarrow>
          (case getFeatureBounds feature of
             None \<Rightarrow> False
           | Some featureBounds \<Rightarrow>
               \<not> (east featureBounds < west bounds \<or> east bounds < west featureBounds \<or>
                  north featureBounds < south bounds \<or> north bounds < south featureBounds)))"

definition candidateIds :: "BoundingBox \<Rightarrow> QuadTreeSpatialIndex \<Rightarrow> string list" where
  "candidateIds bounds idx =
     fold (\<lambda>key acc.
             case map_get (spatialGrid idx) key of
               None \<Rightarrow> acc
             | Some cellFeatures \<Rightarrow> fold set_add cellFeatures acc)
          (cellRange \<lfloor>west bounds / gridSize\<rfloor> \<lceil>east bounds / gridSize\<rceil>
                     \<lfloor>south bounds / gridSize\<rfloor> \<lceil>north bounds / gridSize\<rceil>)
          []"

definition query :: "BoundingBox \<Rightarrow> QuadTreeSpatialIndex \<Rightarrow> GeographicFeature list" where
  "query bounds idx =
     concat (map (\<lambda>fid.
                    case map_get (features idx) fid of
                      None \<Rightarrow> []
                    | Some feature \<Rightarrow>
                        if featureIntersectsBounds feature bounds then [feature] else [])
                 (candidateIds bounds idx))"

text \<open>
  The centre of a feature without coordinates is \<open>(+\<infinity> + -\<infinity>) / 2\<close>, not a number:
  \<open>None\<close>, and every comparison with its distance is false.
\<close>

definition getFeatureCenter :: "GeographicFeature \<Rightarrow> Coordinates option" where
  "getFeatureCenter feature =
     (case feat_geometry feature of
        Point coords \<Rightarrow> Some coords
      | _ \<Rightarrow>
          (case getFeatureBounds feature of
             None \<Rightarrow> None
           | Some bounds \<Rightarrow>
               Some \<lparr> latitude = (north bounds + south bounds) / 2,
                      longitude = (east bounds + west bounds) / 2 \<rparr>))"

text \<open>
  \<open>queryRadius\<close>. Where \<open>createBoundingBox\<close> has no finite box (the centre at a pole) the
  cell loop of \<open>query\<close> would run from \<open>-\<infinity>\<close> to \<open>+\<infinity>\<close>; the model returns \<open>None\<close>.
\<close>

definition queryRadius :: "Coordinates \<Rightarrow> real \<Rightarrow> QuadTreeSpatialIndex
                           \<Rightarrow> GeographicFeature list option" where
  "queryRadius center radiusKm idx =
     (case createBoundingBox center radiusKm of
        None \<Rightarrow> None
      | Some bounds \<Rightarrow>
          Some (filter (\<lambda>feature.
                          case getFeatureCenter feature of
                            None \<Rightarrow> False
                          | Some featureCoords \<Rightarrow>
                              calculateDistance center featureCoords \<le> radiusKm)
                       (query bounds idx)))"

definition gridRemove :: "string \<Rightarrow> grid_key \<Rightarrow> (grid_key, string list) js_map
                          \<Rightarrow> (grid_key, string list) js_map" where
  "gridRemove fid key grid =
     (case map_get grid key of
        None \<Rightarrow> grid
      | Some cell \<Rightarrow>
          (let cell' = set_delete fid cell
           in if length cell' = 0 then map_delete key grid else map_set key cell' grid))"

definition remove_feature :: "string \<Rightarrow> QuadTreeSpatialIndex \<Rightarrow> bool \<times> QuadTreeSpatialIndex" where
  "remove_feature fid idx =
     (case map_get (features idx) fid of
        None \<Rightarrow> (False, idx)
      | Some feature \<Rightarrow>
          (True, \<lparr> features = map_delete fid (features idx),
                   spatialGrid = fold (gridRemove fid) (getGridKeys feature) (spatialGrid idx) \<rparr>))"

definition clear :: "QuadTreeSpatialIndex \<Rightarrow> QuadTreeSpatialIndex" where
  "clear idx = \<lparr> features = [], spatialGrid = [] \<rparr>"


subsection \<open>Example data\<close>

definition antimeridianCenter :: Coordinates where
  "antimeridianCenter = \<lparr> latitude = 0, longitude = 180 \<rparr>"
definition antimeridianPoint :: GeographicFeature where
  "antimeridianPoint = \<lparr> feat_id = ''p'', feat_name = ''P'',
      feat_geometry = Point \<lparr> latitude = 0, longitude = - 180 \<rparr>, feat_properties = [] \<rparr>"

definition originCenter :: Coordinates where
  "originCenter = \<lparr> latitude = 0, longitude = 0 \<rparr>"
definition originPoint :: GeographicFeature where
  "originPoint = \<lparr> feat_id = ''o'', feat_name = ''O'',
      feat_geometry = Point \<lparr> latitude = 0, longitude = 0 \<rparr>, feat_properties = [] \<rparr>"

definition featureOld :: GeographicFeature where
  "featureOld = \<lparr> feat_id = ''a'', feat_name = ''A'',
      feat_geometry = Point \<lparr> latitude = 0.005, longitude = 0.005 \<rparr>, feat_properties = [] \<rparr>"

definition featureMoved :: GeographicFeature where
  "featureMoved = \<lparr> feat_id = ''a'', feat_name = ''A'',
      feat_geometry = Point \<lparr> latitude = 1.005, longitude = 1.005 \<rparr>, feat_properties = [] \<rparr>"

definition docSF :: GeographicDocument where
  "docSF = \<lparr> doc_id = ''doc-sf'', doc_content = ''San Francisco'',
      doc_metadata = \<lparr> md_type = ''feature'',
                        md_location = Some \<lparr> latitude = 37.7749, longitude = - 122.4194 \<rparr>,
                        md_bounds = None, md_timestamp = ''2024-01-15'', md_source = ''OpenStreetMap'',
                        md_tags = [], md_confidence = None \<rparr>,
      doc_embedding = Some [1, 0], doc_spatialContext = None \<rparr>"


section \<open>Properties of the vector store\<close>

text \<open>
  Claim C10. With the similarity fixed and a spatial weight \<open>w > 0\<close>, the combined score
  \<open>(1 - w) * s + w * r\<close> does not decrease when the spatial relevance \<open>r\<close> grows.
\<close>

theorem combineScores_mono_spatialRelevance:
  assumes "0 < w" and "r1 \<le> r2"
  shows "combineScores s r1 w \<le> combineScores s r2 w"
  using assms by (simp add: combineScores_def)

theorem combineScores_mono_witness:
  "(0::real) < 0.3 \<and> (0.2::real) \<le> 0.9
   \<and> combineScores 0.8 0.2 0.3 \<le> combineScores 0.8 0.9 0.3"
  using combineScores_mono_spatialRelevance [of "0.3" "0.2" "0.9" "0.8"] by simp

subsection \<open>The cosine similarity in doubles\<close>

lemma roundTiesToEven_near:
  "\<bar>q - of_int m\<bar> < 1 / 2 \<Longrightarrow> roundTiesToEven q = m"
proof -
  assume a: "\<bar>q - of_int m\<bar> < 1 / 2"
  show ?thesis
  proof (cases "of_int m \<le> q")
    case True
    then have "\<lfloor>q\<rfloor> = m" using a by (intro floor_unique) auto
    then show ?thesis using a True by (simp add: roundTiesToEven_def)
  next
    case False
    then have f: "\<lfloor>q\<rfloor> = m - 1" using a by (intro floor_unique) auto
    then show ?thesis using a False by (auto simp: roundTiesToEven_def Let_def)
  qed
qed

lemma roundTiesToEven_int: "roundTiesToEven (of_int m) = m"
  by (rule roundTiesToEven_near) simp

lemma roundTiesToEven_error: "\<bar>of_int (roundTiesToEven q) - q\<bar> \<le> 1 / 2"
  unfolding roundTiesToEven_def Let_def by (auto simp: abs_if) linarith+

lemma floor_log2:
  assumes "2 powr of_int e \<le> x" and "x < 2 powr (of_int e + 1)"
  shows "\<lfloor>log 2 x\<rfloor> = e"
proof -
  have pos: "0 < x" using assms(1) by (smt (verit) powr_gt_zero)
  have "of_int e \<le> log 2 x" using assms(1) pos by (simp add: le_log_iff)
  moreover have "log 2 x < of_int e + 1" using assms(2) pos by (simp add: log_less_iff)
  ultimately show ?thesis by (intro floor_unique) auto
qed

text \<open>Evaluation of \<open>fl\<close> in a normal binade: \<open>2^e \<le> |x| < 2^(e+1)\<close>.\<close>

lemma fl_normal:
  assumes "2 powr of_int e \<le> \<bar>x\<bar>" and "\<bar>x\<bar> < 2 powr (of_int e + 1)"
    and "- 1022 \<le> e" and "e \<le> 1022"
    and "\<bar>x / 2 powr (of_int e - 52) - of_int m\<bar> < 1 / 2"
  shows "fl x = Finite (of_int m * 2 powr (of_int e - 52))"
proof -
  have e: "\<lfloor>log 2 \<bar>x\<bar>\<rfloor> = e" using assms(1,2) by (rule floor_log2)
  have x0: "x \<noteq> 0" using assms(1) by (smt (verit) powr_gt_zero)
  have r: "roundTiesToEven (x / 2 powr (of_int e - 52)) = m"
    using assms(5) by (rule roundTiesToEven_near)
  have u: "0 < 2 powr (of_int e - 52 :: real)" by simp
  define q where "q = x / 2 powr (of_int e - 52)"
  have "\<bar>q\<bar> = \<bar>x\<bar> / 2 powr (of_int e - 52)" by (simp add: q_def)
  moreover have "\<bar>q - of_int m\<bar> < 1 / 2" using assms(5) by (simp add: q_def)
  moreover have "\<bar>real_of_int m\<bar> \<le> \<bar>q\<bar> + \<bar>q - of_int m\<bar>" by arith
  ultimately have "\<bar>of_int m\<bar> < \<bar>x\<bar> / 2 powr (of_int e - 52) + 1 / 2"
    by linarith
  also have "\<dots> < 2 powr (of_int e + 1) / 2 powr (of_int e - 52) + 1 / 2"
    using assms(2) u by (simp add: divide_strict_right_mono)
  also have "\<dots> = 2 powr 53 + 1 / 2"
    by (simp add: powr_diff [symmetric])
  finally have m: "\<bar>real_of_int m\<bar> < 2 powr 53 + 1 / 2" .
  have "\<bar>real_of_int m\<bar> \<le> 2 powr 53"
  proof -
    have "2 powr 53 = real_of_int (2 ^ 53)" by simp
    then have "\<bar>real_of_int m\<bar> < real_of_int (2 ^ 53) + 1 / 2" using m by simp
    then have "real_of_int \<bar>m\<bar> < real_of_int (2 ^ 53 + 1)" by simp
    then have "\<bar>m\<bar> < 2 ^ 53 + 1" by (simp only: of_int_less_iff)
    then have "\<bar>m\<bar> \<le> 2 ^ 53" by simp
    then have "real_of_int \<bar>m\<bar> \<le> real_of_int (2 ^ 53)" by (simp only: of_int_le_iff)
    then show ?thesis by simp
  qed
  then have "\<bar>real_of_int m * 2 powr (of_int e - 52)\<bar> \<le> 2 powr 53 * 2 powr (of_int e - 52)"
    by (simp add: abs_mult mult_right_mono)
  also have "\<dots> = 2 powr (53 + (of_int e - 52))" by (simp only: powr_add)
  also have "\<dots> = 2 powr (of_int e + 1)" by (simp add: algebra_simps)
  also have "\<dots> \<le> 2 powr 1023" using assms(4) by (intro powr_mono) auto
  also have "\<dots> < 2 ^ 1024" by simp
  finally have small: "\<not> 2 ^ 1024 \<le> \<bar>real_of_int m * 2 powr (of_int e - 52)\<bar>" by simp
  show ?thesis
    using x0 assms(3) small by (simp add: fl_def e r Let_def max_def)
qed

text \<open>The same for a unit in the last place \<open>2^-n\<close>: \<open>2^52 \<le> |x| * 2^n < 2^53\<close>.\<close>

lemma fl_scaled:
  assumes "2 ^ 52 \<le> \<bar>x\<bar> * 2 ^ n" and "\<bar>x\<bar> * 2 ^ n < 2 ^ 53" and "n \<le> 1074"
    and "\<bar>x * 2 ^ n - of_int m\<bar> < 1 / 2"
  shows "fl x = Finite (of_int m / 2 ^ n)"
proof -
  define e :: int where "e = 52 - int n"
  have u: "2 powr (of_int e - 52) = 1 / (2::real) ^ n"
    by (simp add: e_def powr_minus powr_realpow inverse_eq_divide)
  have lo: "2 powr of_int e = (2::real) ^ 52 / 2 ^ n"
    by (simp add: e_def powr_diff powr_realpow)
  have hi: "2 powr (of_int e + 1) = (2::real) ^ 53 / 2 ^ n"
  proof -
    have "of_int e + 1 = (53::real) - real n" by (simp add: e_def)
    then show ?thesis by (simp add: powr_diff powr_realpow)
  qed
  have "2 powr of_int e \<le> \<bar>x\<bar>" unfolding lo using assms(1) by (simp add: field_simps)
  moreover have "\<bar>x\<bar> < 2 powr (of_int e + 1)" unfolding hi using assms(2) by (simp add: field_simps)
  moreover have "- 1022 \<le> e" "e \<le> 1022" using assms(3) by (simp_all add: e_def)
  moreover have "\<bar>x / 2 powr (of_int e - 52) - of_int m\<bar> < 1 / 2"
    unfolding u using assms(4) by simp
  ultimately have "fl x = Finite (of_int m * 2 powr (of_int e - 52))" by (rule fl_normal)
  then show ?thesis unfolding u by simp
qed

lemma fl_1: "fl 1 = Finite 1"
  using fl_scaled [of 1 52 4503599627370496] by simp

lemma fl_2: "fl 2 = Finite 2"
  using fl_scaled [of 2 51 4503599627370496] by simp

lemma sqrt_between:
  assumes "0 \<le> a" and "a * a < x" and "x < b * b" and "0 \<le> b"
  shows "a < sqrt x \<and> sqrt x < b"
proof -
  have "sqrt (a * a) < sqrt x" using assms(2) by (simp only: real_sqrt_less_iff)
  moreover have "sqrt x < sqrt (b * b)" using assms(3) by (simp only: real_sqrt_less_iff)
  ultimately show ?thesis using assms(1,4) by simp
qed

lemma sqrt_2_bounds:
  "12738103345051545 / 9007199254740992 < sqrt 2 \<and> sqrt 2 < 12738103345051547 / 9007199254740992"
  by (rule sqrt_between) simp_all

lemma fl_sqrt_2: "fl (sqrt 2) = Finite (6369051672525773 / 4503599627370496)"
proof -
  have "\<bar>sqrt 2 * 2 ^ 52 - of_int 6369051672525773\<bar> < 1 / 2"
    using sqrt_2_bounds by (simp add: abs_if field_simps)
  moreover have "2 ^ 52 \<le> \<bar>sqrt 2\<bar> * 2 ^ 52" "\<bar>sqrt 2\<bar> * 2 ^ 52 < 2 ^ 53"
    using sqrt_2_bounds by simp_all
  ultimately show ?thesis
    using fl_scaled [of "sqrt 2" 52 6369051672525773] by simp
qed

lemma fl_product:
  "fl (6369051672525773 / 4503599627370496 * (6369051672525773 / 4503599627370496))
     = Finite (4503599627370497 / 2251799813685248)"
  using fl_scaled [of "6369051672525773 / 4503599627370496 * (6369051672525773 / 4503599627370496)"
                      51 4503599627370497]
  by simp

lemma fl_quotient:
  "fl (2 / (4503599627370497 / 2251799813685248)) = Finite (1 - 1 / 2 ^ 52)"
  using fl_scaled [of "2 / (4503599627370497 / 2251799813685248)" 53 9007199254740990]
  by simp

lemma cosineLoop_1_1:
  "cosineLoop [1, 1] [1, 1] (Finite 0, Finite 0, Finite 0) = (Finite 2, Finite 2, Finite 2)"
  by (simp add: dadd_def dmul_def fl_1 fl_2)

lemma cosineSimilarity_1_1:
  "cosineSimilarity [1, 1] [1, 1] = Inr (Finite (1 - 1 / 2 ^ 52))"
proof -
  have s: "dsqrt (Finite 2) = Finite (6369051672525773 / 4503599627370496)"
    by (simp add: dsqrt_def fl_sqrt_2)
  have p: "dmul (Finite (6369051672525773 / 4503599627370496))
                (Finite (6369051672525773 / 4503599627370496))
             = Finite (4503599627370497 / 2251799813685248)"
    by (simp only: dmul_def prod.case double.case fl_product)
  have "(4503599627370497 / 2251799813685248 :: real) \<noteq> 0" by simp
  then have q: "ddiv (Finite 2) (Finite (4503599627370497 / 2251799813685248))
                  = Finite (1 - 1 / 2 ^ 52)"
    by (simp only: ddiv_def prod.case double.case if_True fl_quotient not_False_eq_True)
  have "length [1, 1 :: real] = length [1, 1 :: real]" by simp
  then show ?thesis
    by (simp only: cosineSimilarity_def cosineLoop_1_1 prod.case s p q not_True_eq_False
                   simp_thms if_False)
qed

lemma dmul_commute: "dmul a b = dmul b a"
  by (cases a; cases b) (simp_all add: dmul_def mult.commute)

lemma cosineLoop_swap:
  "cosineLoop a b (d, na, nb) = (d', na', nb') \<Longrightarrow> cosineLoop b a (d, nb, na) = (d', nb', na')"
proof (induction a arbitrary: b d na nb)
  case Nil
  then show ?case by (cases b) auto
next
  case (Cons x a)
  then show ?case by (cases b) (auto simp: dmul_commute)
qed

lemma cosineSimilarity_commute: "cosineSimilarity a b = cosineSimilarity b a"
proof (cases "length a = length b")
  case True
  obtain d na nb where l: "cosineLoop a b (Finite 0, Finite 0, Finite 0) = (d, na, nb)"
    by (cases "cosineLoop a b (Finite 0, Finite 0, Finite 0)")
  from cosineLoop_swap [OF l] l True show ?thesis
    by (simp add: cosineSimilarity_def dmul_commute)
next
  case False
  then show ?thesis by (auto simp: cosineSimilarity_def)
qed

lemma cosineLoop_self:
  "cosineLoop a a (n, n, n) = (d', na', nb') \<Longrightarrow> d' = na' \<and> nb' = na'"
  by (induction a arbitrary: n) auto

lemma fl_error:
  assumes lo: "1 / 2 ^ 1022 \<le> \<bar>x\<bar>" and hi: "\<bar>x\<bar> \<le> 2 ^ 1023"
  shows "\<exists>y. fl x = Finite y \<and> \<bar>y - x\<bar> \<le> \<bar>x\<bar> / 2 ^ 53"
proof -
  have x0: "x \<noteq> 0" using lo by auto
  then have xpos: "0 < \<bar>x\<bar>" by simp
  define e where "e = \<lfloor>log 2 \<bar>x\<bar>\<rfloor>"
  have "(2::real) powr (- 1022) = 1 / 2 ^ 1022"
    by (simp only: powr_minus powr_numeral inverse_eq_divide) 
  then have "2 powr (- 1022) \<le> \<bar>x\<bar>" using lo by simp
  then have "- 1022 \<le> log 2 \<bar>x\<bar>" using xpos by (simp add: le_log_iff)
  then have e_lo: "- 1022 \<le> e" unfolding e_def by (simp add: le_floor_iff)
  have "of_int e \<le> log 2 \<bar>x\<bar>" unfolding e_def by simp
  then have pe: "2 powr of_int e \<le> \<bar>x\<bar>" using xpos by (simp add: le_log_iff)
  define ulp :: real where "ulp = 2 powr (of_int e - 52)"
  have ulp_pos: "0 < ulp" by (simp add: ulp_def)
  define r where "r = roundTiesToEven (x / ulp)"
  have "ulp * 2 ^ 52 = 2 powr (of_int e - 52) * 2 powr 52" by (simp add: ulp_def)
  also have "\<dots> = 2 powr of_int e" by (simp only: powr_add [symmetric]) simp
  finally have ulp_x: "ulp * 2 ^ 52 \<le> \<bar>x\<bar>" using pe by simp
  have "\<bar>of_int r * ulp - x\<bar> = \<bar>of_int r - x / ulp\<bar> * ulp"
  proof -
    have "of_int r * ulp - x = (of_int r - x / ulp) * ulp" using ulp_pos by (simp add: field_simps)
    then show ?thesis using ulp_pos by (simp add: abs_mult)
  qed
  also have "\<dots> \<le> 1 / 2 * ulp"
    unfolding r_def using roundTiesToEven_error [of "x / ulp"] ulp_pos
    by (intro mult_right_mono) simp_all
  also have "\<dots> = ulp * 2 ^ 52 / 2 ^ 53" by simp
  also have "\<dots> \<le> \<bar>x\<bar> / 2 ^ 53" using ulp_x by (simp add: divide_right_mono)
  finally have err: "\<bar>of_int r * ulp - x\<bar> \<le> \<bar>x\<bar> / 2 ^ 53" .
  have "\<bar>of_int r * ulp\<bar> \<le> \<bar>x\<bar> + \<bar>x\<bar> / 2 ^ 53" using err by arith
  also have "\<dots> \<le> 2 ^ 1023 + 2 ^ 1023 / 2 ^ 53" using hi by (intro add_mono divide_right_mono) simp_all
  also have "\<dots> < (2::real) ^ 1024" by simp
  finally have "\<not> 2 ^ 1024 \<le> \<bar>of_int r * ulp\<bar>" by simp
  then have "fl x = Finite (of_int r * ulp)"
    using x0 e_lo by (simp add: fl_def Let_def e_def [symmetric] max_def ulp_def [symmetric] r_def [symmetric])
  then show ?thesis using err by blast
qed

lemma fl_bounds:
  assumes "1 / 2 ^ 1022 \<le> x" and "x \<le> 2 ^ 1023"
  shows "\<exists>y. fl x = Finite y \<and> (1 - 1 / 2 ^ 53) * x \<le> y \<and> y \<le> (1 + 1 / 2 ^ 53) * x"
proof -
  have "(0::real) < 1 / 2 ^ 1022" by simp
  then have "0 < x" using assms(1) by linarith
  then have "\<bar>x\<bar> = x" by simp
  with fl_error [of x] assms obtain y where y: "fl x = Finite y" "\<bar>y - x\<bar> \<le> x / 2 ^ 53" by auto
  have "(1 - 1 / 2 ^ 53) * x = x - x / 2 ^ 53" "(1 + 1 / 2 ^ 53) * x = x + x / 2 ^ 53"
    by (simp_all add: algebra_simps)
  moreover have "x - x / 2 ^ 53 \<le> y" "y \<le> x + x / 2 ^ 53" using y(2) by linarith+
  ultimately show ?thesis using y(1) by auto
qed

text \<open>
  The similarity of a vector with itself is the quotient \<open>d / (sqrt d * sqrt d)\<close> of its
  squared norm \<open>d\<close> as the loop computes it, three roundings away from \<open>1\<close>.
\<close>

lemma self_similarity_bound:
  assumes lo: "1 / 2 ^ 1000 \<le> d" and hi: "d \<le> 2 ^ 1000"
  shows "\<exists>q. ddiv (Finite d) (dmul (dsqrt (Finite d)) (dsqrt (Finite d))) = Finite q
             \<and> \<bar>q - 1\<bar> \<le> 1 / 2 ^ 50"
proof -
  define L :: real where "L = 1 - 1 / 2 ^ 53"
  define H :: real where "H = 1 + 1 / 2 ^ 53"
  have L: "0 < L" and H: "0 < H" and L1: "L \<le> 1" and H1: "1 \<le> H" and H2: "H \<le> 2" and L2: "1 / 2 \<le> L"
    by (simp_all add: L_def H_def)
  have "(0::real) < 1 / 2 ^ 1000" by simp
  then have d: "0 < d" using lo by linarith
  define r where "r = sqrt d"
  have r: "0 < r" and rr: "r * r = d" using d by (simp_all add: r_def)
  have r_lo: "1 / 2 ^ 500 \<le> r"
    unfolding r_def using lo by (intro real_le_rsqrt) (simp add: power2_eq_square)
  have r_hi: "r \<le> 2 ^ 500"
    unfolding r_def using hi by (intro real_le_lsqrt) (simp_all add: power2_eq_square)
  have "(1::real) / 2 ^ 1022 \<le> 1 / 2 ^ 500" "(2::real) ^ 500 \<le> 2 ^ 1023" by simp_all
  then have "1 / 2 ^ 1022 \<le> r" "r \<le> 2 ^ 1023" using r_lo r_hi by linarith+
  from fl_bounds [OF this] obtain s where s: "fl r = Finite s" "L * r \<le> s" "s \<le> H * r"
    unfolding L_def H_def by blast
  have Lr: "0 < L * r" using L r by simp
  then have s0: "0 < s" using s(2) by linarith
  text \<open>the product\<close>
  have ss_lo: "L * L * d \<le> s * s"
  proof -
    have "(L * r) * (L * r) \<le> s * s" using s(2) Lr s0 by (intro mult_mono) simp_all
    then show ?thesis using rr by (simp add: algebra_simps)
  qed
  have ss_hi: "s * s \<le> H * H * d"
  proof -
    have "s * s \<le> (H * r) * (H * r)" using s(3) s0 H r by (intro mult_mono) simp_all
    then show ?thesis using rr by (simp add: algebra_simps)
  qed
  have LL: "1 / 4 \<le> L * L" using mult_mono [of "1 / 2" L "1 / 2" L] L2 by simp
  have HH: "H * H \<le> 4" using mult_mono [of H 2 H 2] H2 H by simp
  have "1 / 2 ^ 1022 \<le> 1 / 4 * (1 / 2 ^ 1000 :: real)" by simp
  also have "\<dots> \<le> L * L * d" using LL lo d by (intro mult_mono) simp_all
  finally have p_lo: "1 / 2 ^ 1022 \<le> s * s" using ss_lo by linarith
  have "H * H * d \<le> 4 * 2 ^ 1000" using HH hi d H by (intro mult_mono) simp_all
  also have "\<dots> \<le> (2::real) ^ 1023" by simp
  finally have p_hi: "s * s \<le> 2 ^ 1023" using ss_hi by linarith
  from fl_bounds [OF p_lo p_hi] obtain p where p: "fl (s * s) = Finite p" "L * (s * s) \<le> p"
      "p \<le> H * (s * s)"
    unfolding L_def H_def by blast
  have p_ge: "L * L * L * d \<le> p"
  proof -
    have "L * (L * L * d) \<le> L * (s * s)" using ss_lo L by (intro mult_left_mono) simp_all
    then show ?thesis using p(2) by (simp add: algebra_simps)
  qed
  have p_le: "p \<le> H * H * H * d"
  proof -
    have "H * (s * s) \<le> H * (H * H * d)" using ss_hi H by (intro mult_left_mono) simp_all
    then show ?thesis using p(3) by (simp add: algebra_simps)
  qed
  have LLL: "0 < L * L * L" using L by simp
  have HHH: "0 < H * H * H" using H by simp
  have "0 < L * L * L * d" using LLL d by simp
  then have p0: "0 < p" using p_ge by linarith
  text \<open>the quotient\<close>
  define c where "c = d / p"
  have c0: "0 < c" using d p0 by (simp add: c_def)
  have c_le: "c \<le> 1 / (L * L * L)"
  proof -
    have "d * (L * L * L) \<le> p" using p_ge by (simp add: algebra_simps)
    then show ?thesis unfolding c_def using p0 LLL by (simp add: field_simps)
  qed
  have c_ge: "1 / (H * H * H) \<le> c"
  proof -
    have "p \<le> d * (H * H * H)" using p_le by (simp add: algebra_simps)
    then show ?thesis unfolding c_def using p0 HHH by (simp add: field_simps)
  qed
  have "1 / (L * L * L) \<le> (2::real) ^ 1023" by (simp add: L_def)
  then have c_hi: "c \<le> 2 ^ 1023" using c_le by linarith
  have "(1::real) / 2 ^ 1022 \<le> 1 / (H * H * H)" by (simp add: H_def)
  then have c_lo: "1 / 2 ^ 1022 \<le> c" using c_ge by linarith
  from fl_bounds [OF c_lo c_hi] obtain q where q: "fl c = Finite q" "L * c \<le> q" "q \<le> H * c"
    unfolding L_def H_def by blast
  have "H * c \<le> H * (1 / (L * L * L))" using c_le H by (intro mult_left_mono) simp_all
  then have "q \<le> H * (1 / (L * L * L))" using q(3) by linarith
  also have "\<dots> \<le> 1 + 1 / 2 ^ 50" by (simp add: L_def H_def)
  finally have q_hi: "q \<le> 1 + 1 / 2 ^ 50" .
  have "1 - 1 / 2 ^ 50 \<le> L * (1 / (H * H * H))" by (simp add: L_def H_def)
  also have "\<dots> \<le> L * c" using c_ge L by (intro mult_left_mono) simp_all
  finally have q_lo: "1 - 1 / 2 ^ 50 \<le> q" using q(2) by linarith
  have "dsqrt (Finite d) = Finite s" using d s(1) by (simp add: dsqrt_def r_def)
  moreover have "dmul (Finite s) (Finite s) = Finite p" using p(1) by (simp add: dmul_def)
  moreover have "ddiv (Finite d) (Finite p) = Finite q" using q(1) p0 by (simp add: ddiv_def c_def)
  ultimately have "ddiv (Finite d) (dmul (dsqrt (Finite d)) (dsqrt (Finite d))) = Finite q"
    by simp
  moreover have "\<bar>q - 1\<bar> \<le> 1 / 2 ^ 50" using q_lo q_hi by linarith
  ultimately show ?thesis by blast
qed

lemma roundTiesToEven_ge: "of_int m \<le> q \<Longrightarrow> m \<le> roundTiesToEven q"
proof -
  assume "of_int m \<le> q"
  then have "m \<le> \<lfloor>q\<rfloor>" by (simp add: le_floor_iff)
  then show ?thesis by (auto simp: roundTiesToEven_def Let_def)
qed

definition squaredNorm :: "real list \<Rightarrow> double" where
  "squaredNorm a = fst (snd (cosineLoop a a (Finite 0, Finite 0, Finite 0)))"

lemma cosineSimilarity_self:
  "cosineSimilarity a a = Inr (ddiv (squaredNorm a) (dmul (dsqrt (squaredNorm a)) (dsqrt (squaredNorm a))))"
proof -
  obtain d na nb where l: "cosineLoop a a (Finite 0, Finite 0, Finite 0) = (d, na, nb)"
    by (cases "cosineLoop a a (Finite 0, Finite 0, Finite 0)")
  from cosineLoop_self [OF l] l show ?thesis
    by (simp add: cosineSimilarity_def squaredNorm_def)
qed

text \<open>
  Claim C9 on the code. The similarity of \<open>[1, 1]\<close> with itself is
  \<open>1 - 2^-52 = 0.9999999999999998\<close>: the squared norm is \<open>2\<close>, its root rounds to
  \<open>6369051672525773 / 2^52\<close>, the square of that rounds to \<open>2 + 2^-51\<close>, and the quotient
  \<open>2 / (2 + 2^-51)\<close> rounds to \<open>1 - 2^-52\<close>.
\<close>

theorem cosineSimilarity_self_not_one:
  "cosineSimilarity [1, 1] [1, 1] = Inr (Finite (1 - 1 / 2 ^ 52))
   \<and> cosineSimilarity [1, 1] [1, 1] \<noteq> Inr (Finite 1)"
  by (simp add: cosineSimilarity_1_1)

text \<open>
  Claim C9, amended. \<open>cosineSimilarity a b\<close> and \<open>cosineSimilarity b a\<close> are the same value
  (the same error when the lengths differ), and the similarity of a vector with itself
  is within \<open>2^-50\<close> of \<open>1\<close> whenever the squared norm that the loop computes lies between
  \<open>2^-1000\<close> and \<open>2^1000\<close>.
\<close>

theorem cosineSimilarity_symmetric_self_rounded:
  "cosineSimilarity a b = cosineSimilarity b a
   \<and> (\<forall>d. squaredNorm a = Finite d \<and> 1 / 2 ^ 1000 \<le> d \<and> d \<le> 2 ^ 1000
          \<longrightarrow> (\<exists>q. cosineSimilarity a a = Inr (Finite q) \<and> \<bar>q - 1\<bar> \<le> 1 / 2 ^ 50))"
proof (intro conjI allI impI)
  show "cosineSimilarity a b = cosineSimilarity b a" by (rule cosineSimilarity_commute)
next
  fix d
  assume d: "squaredNorm a = Finite d \<and> 1 / 2 ^ 1000 \<le> d \<and> d \<le> 2 ^ 1000"
  then obtain q where "ddiv (Finite d) (dmul (dsqrt (Finite d)) (dsqrt (Finite d))) = Finite q"
      "\<bar>q - 1\<bar> \<le> 1 / 2 ^ 50"
    using self_similarity_bound [of d] by blast
  then show "\<exists>q. cosineSimilarity a a = Inr (Finite q) \<and> \<bar>q - 1\<bar> \<le> 1 / 2 ^ 50"
    using d by (simp add: cosineSimilarity_self)
qed

theorem cosineSimilarity_symmetric_self_rounded_witness:
  "cosineSimilarity [3, 4] [1, 2] = cosineSimilarity [1, 2] [3, 4]
   \<and> squaredNorm [1, 1] = Finite 2 \<and> (1 :: real) / 2 ^ 1000 \<le> 2 \<and> (2 :: real) \<le> 2 ^ 1000
   \<and> (\<exists>q. cosineSimilarity [1, 1] [1, 1] = Inr (Finite q) \<and> \<bar>q - 1\<bar> \<le> 1 / 2 ^ 50)"
proof -
  have n: "squaredNorm [1, 1] = Finite 2"
    by (simp only: squaredNorm_def cosineLoop_1_1 fst_conv snd_conv)
  have b: "(1 :: real) / 2 ^ 1000 \<le> 2" "(2 :: real) \<le> 2 ^ 1000" by simp_all
  show ?thesis
    using cosineSimilarity_symmetric_self_rounded [of "[3, 4]" "[1, 2]"]
          cosineSimilarity_symmetric_self_rounded [of "[1, 1]" "[1, 1]"] n b
    by blast
qed

text \<open>
  When the squared norm overflows the similarity is no number: \<open>[2^600]\<close> has the squared
  norm \<open>+\<infinity>\<close> and the similarity \<open>\<infinity> / \<infinity>\<close>.
\<close>

lemma fl_overflow: "2 ^ 1024 \<le> x \<Longrightarrow> fl x = PlusInfinity"
proof -
  assume x: "2 ^ 1024 \<le> x"
  have "(0::real) < 2 ^ 1024" by simp
  then have xpos: "0 < x" using x by linarith
  define e where "e = \<lfloor>log 2 \<bar>x\<bar>\<rfloor>"
  have "of_int e \<le> log 2 x" unfolding e_def using xpos by simp
  then have pe: "2 powr of_int e \<le> x" using xpos by (simp add: le_log_iff)
  have "(2::real) powr 1024 = 2 ^ 1024" by (simp only: powr_numeral)
  then have "1024 \<le> log 2 x" using x xpos by (simp add: le_log_iff)
  then have e_lo: "1024 \<le> e" unfolding e_def using xpos by (simp add: le_floor_iff)
  define ulp :: real where "ulp = 2 powr (of_int e - 52)"
  have ulp_pos: "0 < ulp" by (simp add: ulp_def)
  have "ulp * 2 ^ 52 = 2 powr (of_int e - 52) * 2 powr 52" by (simp add: ulp_def)
  also have "\<dots> = 2 powr of_int e" by (simp only: powr_add [symmetric]) simp
  finally have ulp_e: "ulp * 2 ^ 52 = 2 powr of_int e" .
  then have "of_int (2 ^ 52) \<le> x / ulp" using pe ulp_pos by (simp add: field_simps)
  then have "2 ^ 52 \<le> roundTiesToEven (x / ulp)" by (rule roundTiesToEven_ge)
  then have "(2::real) ^ 52 \<le> of_int (roundTiesToEven (x / ulp))"
    by (metis of_int_le_iff of_int_numeral of_int_power)
  then have "2 ^ 52 * ulp \<le> of_int (roundTiesToEven (x / ulp)) * ulp"
    using ulp_pos by (intro mult_right_mono) simp_all
  moreover have "(2::real) ^ 1024 \<le> 2 powr of_int e"
  proof -
    have "(2::real) powr 1024 \<le> 2 powr of_int e" using e_lo by (intro powr_mono) auto
    then show ?thesis by (simp only: powr_numeral)
  qed
  ultimately have big: "2 ^ 1024 \<le> of_int (roundTiesToEven (x / ulp)) * ulp"
    using ulp_e by (simp add: mult.commute)
  have "(0::real) \<le> 2 ^ 1024" by simp
  then have "0 \<le> of_int (roundTiesToEven (x / ulp)) * ulp" using big by linarith
  then have "2 ^ 1024 \<le> \<bar>of_int (roundTiesToEven (x / ulp)) * ulp\<bar>" using big by simp
  moreover have "max e (- 1022) = e" using e_lo by simp
  ultimately show ?thesis
    using xpos unfolding fl_def Let_def e_def [symmetric] ulp_def [symmetric]
    by (simp add: ulp_def [symmetric])
qed

lemma cosineSimilarity_overflow: "cosineSimilarity [2 ^ 600] [2 ^ 600] = Inr NotANumber"
proof -
  have "fl (2 ^ 600 * 2 ^ 600) = PlusInfinity" by (rule fl_overflow) simp
  then show ?thesis
    by (simp add: cosineSimilarity_def dadd_def dmul_def dsqrt_def ddiv_def)
qed

subsection \<open>Adding documents\<close>

lemma map_get_map_set: "map_get (map_set k v m) k' = (if k' = k then Some v else map_get m k')"
  by (induction m) (auto simp: map_get_def)

lemma map_set_idem: "map_set k v (map_set k v m) = map_set k v m"
  by (induction m) auto

lemma addDocument_once:
  "addDocument docSF (newVectorStore defaultOptions) =
     \<lparr> documents = [(''doc-sf'', docSF)], embeddings = [(''doc-sf'', [1, 0])],
       spatialIndex = [((- 1225, 377), [''doc-sf''])], options = defaultOptions \<rparr>"
  by (simp add: addDocument_def addToSpatialIndex_def newVectorStore_def docSF_def map_get_def Let_def)

text \<open>
  Claim C4 on the code. Adding the same document (with a location) a second time
  pushes its id onto the bucket of its grid cell again: the bucket holds the id once
  after one call and twice after two, so the two store states differ.
\<close>

theorem addDocument_twice_registers_twice:
  "spatialIndex (addDocument docSF (newVectorStore defaultOptions))
     = [((- 1225, 377), [''doc-sf''])]
   \<and> spatialIndex (addDocument docSF (addDocument docSF (newVectorStore defaultOptions)))
     = [((- 1225, 377), [''doc-sf'', ''doc-sf''])]
   \<and> addDocument docSF (addDocument docSF (newVectorStore defaultOptions))
     \<noteq> addDocument docSF (newVectorStore defaultOptions)"
proof -
  have twice: "spatialIndex (addDocument docSF (addDocument docSF (newVectorStore defaultOptions)))
     = [((- 1225, 377), [''doc-sf'', ''doc-sf''])]"
    unfolding addDocument_once
    by (simp add: addDocument_def addToSpatialIndex_def docSF_def map_get_def Let_def)
  have once: "spatialIndex (addDocument docSF (newVectorStore defaultOptions))
     = [((- 1225, 377), [''doc-sf''])]"
    by (simp add: addDocument_once)
  have "spatialIndex (addDocument docSF (addDocument docSF (newVectorStore defaultOptions)))
        \<noteq> spatialIndex (addDocument docSF (newVectorStore defaultOptions))"
    unfolding twice once by simp
  then have "addDocument docSF (addDocument docSF (newVectorStore defaultOptions))
     \<noteq> addDocument docSF (newVectorStore defaultOptions)"
    by auto
  with once twice show ?thesis by blast
qed

lemma addDocument_twice_tables:
  "documents (addDocument d (addDocument d st)) = documents (addDocument d st)
   \<and> embeddings (addDocument d (addDocument d st)) = embeddings (addDocument d st)"
  by (simp add: addDocument_def addToSpatialIndex_def Let_def map_set_idem split: option.splits)

lemma addDocument_twice_without_location:
  "md_location (doc_metadata d) = None \<Longrightarrow> addDocument d (addDocument d st) = addDocument d st"
  by (simp add: addDocument_def Let_def map_set_idem split: option.splits)

lemma addDocument_twice_with_location:
  assumes "md_location (doc_metadata d) = Some loc"
  shows "addDocument d (addDocument d st) \<noteq> addDocument d st"
proof -
  define key where "key = (\<lfloor>longitude loc / (0.1::real)\<rfloor>, \<lfloor>latitude loc / (0.1::real)\<rfloor>)"
  define cell where "cell st' = (case map_get (spatialIndex st') key of None \<Rightarrow> [] | Some ds \<Rightarrow> ds)" for st' :: VectorStore
  have step: "cell (addDocument d st') = cell st' @ [doc_id d]" for st'
    using assms
    by (simp add: cell_def key_def addDocument_def addToSpatialIndex_def Let_def map_get_map_set
             split: option.splits)
  have "length (cell (addDocument d (addDocument d st))) \<noteq> length (cell (addDocument d st))"
    by (simp add: step)
  then show ?thesis by auto
qed


section \<open>Properties of the spatial index\<close>

definition bucket_has :: "(grid_key, string list) js_map \<Rightarrow> grid_key \<Rightarrow> string \<Rightarrow> bool" where
  "bucket_has grid key fid \<longleftrightarrow> (case map_get grid key of None \<Rightarrow> False | Some cell \<Rightarrow> fid \<in> set cell)"

lemma set_set_add: "set (set_add x xs) = insert x (set xs)"
  by (auto simp: set_add_def)

lemma bucket_has_gridAdd:
  "bucket_has (gridAdd i k g) k' j \<longleftrightarrow> (k' = k \<and> j = i) \<or> bucket_has g k' j"
  by (auto simp: bucket_has_def gridAdd_def map_get_map_set set_set_add split: option.splits)

lemma bucket_has_fold_gridAdd:
  "bucket_has (fold (gridAdd i) ks g) k' j \<longleftrightarrow> (k' \<in> set ks \<and> j = i) \<or> bucket_has g k' j"
  by (induction ks arbitrary: g) (auto simp: bucket_has_gridAdd)

definition index_ok :: "QuadTreeSpatialIndex \<Rightarrow> bool" where
  "index_ok idx \<longleftrightarrow>
     (\<forall>i f. map_get (features idx) i = Some f \<longrightarrow>
        feat_id f = i \<and> (\<forall>k\<in>set (getGridKeys f). bucket_has (spatialGrid idx) k i))"

lemma index_ok_new: "index_ok newSpatialIndex"
  by (simp add: index_ok_def newSpatialIndex_def map_get_def)

lemma index_ok_insert: "index_ok idx \<Longrightarrow> index_ok (insert_feature f idx)"
  unfolding index_ok_def insert_feature_def
  by (auto simp: map_get_map_set bucket_has_fold_gridAdd)

lemma index_ok_fold: "index_ok idx \<Longrightarrow> index_ok (fold insert_feature fs idx)"
  by (induction fs arbitrary: idx) (auto simp: index_ok_insert)

lemma set_fold_set_add: "set (fold set_add cs acc) = set cs \<union> set acc"
  by (induction cs arbitrary: acc) (auto simp: set_set_add)

lemma set_candidates_fold:
  "set (fold (\<lambda>key acc. case map_get g key of None \<Rightarrow> acc | Some cell \<Rightarrow> fold set_add cell acc) ks acc)
   = set acc \<union> {j. \<exists>k\<in>set ks. bucket_has g k j}"
proof (induction ks arbitrary: acc)
  case Nil
  then show ?case by simp
next
  case (Cons k ks)
  show ?case
    by (cases "map_get g k") (auto simp: Cons.IH bucket_has_def set_fold_set_add)
qed

lemma set_cellRange: "set (cellRange a b c d) = {(x, y). a \<le> x \<and> x \<le> b \<and> c \<le> y \<and> y \<le> d}"
  by (auto simp: cellRange_def)

lemma set_candidateIds:
  "set (candidateIds b idx) =
     {j. \<exists>k\<in>set (cellRange \<lfloor>west b / gridSize\<rfloor> \<lceil>east b / gridSize\<rceil>
                               \<lfloor>south b / gridSize\<rfloor> \<lceil>north b / gridSize\<rceil>).
           bucket_has (spatialGrid idx) k j}"
  unfolding candidateIds_def by (simp only: set_candidates_fold) simp

lemma set_query:
  "set (query b idx) =
     {f. \<exists>i\<in>set (candidateIds b idx). map_get (features idx) i = Some f \<and> featureIntersectsBounds f b}"
  by (auto simp: query_def split: option.splits if_splits)

lemma point_key_in_range:
  assumes "isPointInBounds p b"
  shows "(\<lfloor>longitude p / gridSize\<rfloor>, \<lfloor>latitude p / gridSize\<rfloor>)
         \<in> set (cellRange \<lfloor>west b / gridSize\<rfloor> \<lceil>east b / gridSize\<rceil>
                           \<lfloor>south b / gridSize\<rfloor> \<lceil>north b / gridSize\<rceil>)"
proof -
  have g: "0 < gridSize" by (simp add: gridSize_def)
  have lo: "\<lfloor>x / gridSize\<rfloor> \<le> \<lfloor>y / gridSize\<rfloor>" if "x \<le> y" for x y
    using that g by (intro floor_mono divide_right_mono) simp_all
  have hi: "\<lfloor>x / gridSize\<rfloor> \<le> \<lceil>y / gridSize\<rceil>" if "x \<le> y" for x y
  proof -
    have "\<lfloor>x / gridSize\<rfloor> \<le> \<lfloor>y / gridSize\<rfloor>" using that by (rule lo)
    also have "\<dots> \<le> \<lceil>y / gridSize\<rceil>" by (rule floor_le_ceiling)
    finally show ?thesis .
  qed
  show ?thesis
    using assms by (simp add: set_cellRange isPointInBounds_def lo hi)
qed

lemma query_point:
  assumes ok: "index_ok idx" and pt: "feat_geometry P = Point p"
  shows "P \<in> set (query b idx) \<longleftrightarrow>
           map_get (features idx) (feat_id P) = Some P \<and> isPointInBounds p b"
proof
  assume "P \<in> set (query b idx)"
  then obtain i where i: "map_get (features idx) i = Some P" "featureIntersectsBounds P b"
    by (auto simp: set_query)
  have "feat_id P = i" using ok i(1) by (simp add: index_ok_def)
  then show "map_get (features idx) (feat_id P) = Some P \<and> isPointInBounds p b"
    using i pt by (simp add: featureIntersectsBounds_def)
next
  assume a: "map_get (features idx) (feat_id P) = Some P \<and> isPointInBounds p b"
  have keys: "getGridKeys P = [(\<lfloor>longitude p / gridSize\<rfloor>, \<lfloor>latitude p / gridSize\<rfloor>)]"
    using pt by (simp add: getGridKeys_def)
  have "bucket_has (spatialGrid idx) (\<lfloor>longitude p / gridSize\<rfloor>, \<lfloor>latitude p / gridSize\<rfloor>) (feat_id P)"
    using ok a keys by (simp add: index_ok_def)
  then have "feat_id P \<in> set (candidateIds b idx)"
    using point_key_in_range [of p b] a by (auto simp only: set_candidateIds mem_Collect_eq)
  then show "P \<in> set (query b idx)"
    using a pt by (auto simp: set_query featureIntersectsBounds_def)
qed

lemma getGridKeys_featureOld: "getGridKeys featureOld = [(0, 0)]"
  by (simp add: getGridKeys_def featureOld_def gridSize_def)

lemma getGridKeys_featureMoved: "getGridKeys featureMoved = [(100, 100)]"
  by (simp add: getGridKeys_def featureMoved_def gridSize_def)

lemma reinserted_index:
  "insert_feature featureMoved (insert_feature featureOld newSpatialIndex) =
     \<lparr> features = [(''a'', featureMoved)],
       spatialGrid = [((0, 0), [''a'']), ((100, 100), [''a''])] \<rparr>"
  by (simp add: insert_feature_def getGridKeys_featureOld getGridKeys_featureMoved
        newSpatialIndex_def gridAdd_def map_get_def set_add_def)
     (simp add: featureOld_def featureMoved_def)

text \<open>
  Claim C1 on the code. A point feature is inserted under the id \<open>a\<close> in the cell
  \<open>(0, 0)\<close> and then inserted again under the same id in the cell \<open>(100, 100)\<close>. The
  stored feature is the new one, whose only grid key is \<open>(100, 100)\<close>, and the bucket of
  the cell \<open>(0, 0)\<close> still holds the id. \<open>remove\<close> then clears the keys of the stored
  feature only and leaves that bucket behind.
\<close>

theorem insert_same_id_leaves_stale_bucket:
  "map_get (features (insert_feature featureMoved (insert_feature featureOld newSpatialIndex))) ''a''
     = Some featureMoved
   \<and> getGridKeys featureMoved = [(100, 100)]
   \<and> map_get (spatialGrid (insert_feature featureMoved (insert_feature featureOld newSpatialIndex))) (0, 0)
     = Some [''a'']
   \<and> snd (remove_feature ''a'' (insert_feature featureMoved (insert_feature featureOld newSpatialIndex)))
     = \<lparr> features = [], spatialGrid = [((0, 0), [''a''])] \<rparr>"
  by (simp add: reinserted_index getGridKeys_featureMoved map_get_def remove_feature_def
        gridRemove_def set_delete_def map_delete_def)

lemma insert_keeps_old_buckets:
  "bucket_has (spatialGrid idx) k i \<Longrightarrow> bucket_has (spatialGrid (insert_feature f idx)) k i"
  by (simp add: insert_feature_def bucket_has_fold_gridAdd)

lemma antimeridian_distance: "calculateDistance antimeridianCenter \<lparr> latitude = 0, longitude = - 180 \<rparr> = 0"
  by (simp add: calculateDistance_def antimeridianCenter_def toRadians_def atan2_def Let_def)

lemma antimeridian_box: "createBoundingBox antimeridianCenter 1 =
   Some \<lparr> north = 1 / 111, south = - (1 / 111), east = 19981 / 111, west = 19979 / 111 \<rparr>"
  by (simp add: createBoundingBox_def antimeridianCenter_def toRadians_def Let_def)

lemma antimeridian_grid: "spatialGrid (insert_feature antimeridianPoint newSpatialIndex) = [((- 18000, 0), [''p''])]"
  by (simp add: insert_feature_def antimeridianPoint_def getGridKeys_def gridSize_def newSpatialIndex_def
       gridAdd_def map_get_def set_add_def)

lemma antimeridian_candidates: "candidateIds \<lparr> north = 1 / 111, south = - (1 / 111), east = 19981 / 111, west = 19979 / 111 \<rparr>
   (insert_feature antimeridianPoint newSpatialIndex) = []"
proof -
  have "set (candidateIds \<lparr> north = 1 / 111, south = - (1 / 111), east = 19981 / 111, west = 19979 / 111 \<rparr>
   (insert_feature antimeridianPoint newSpatialIndex)) = {}"
    by (simp add: set_candidateIds set_cellRange bucket_has_def antimeridian_grid map_get_def gridSize_def)
  then show ?thesis by simp
qed

text \<open>
  Claim C3, as stated, fails across the antimeridian. The point at longitude \<open>-180\<close> is at
  haversine distance \<open>0\<close> from the centre at longitude \<open>180\<close>, so it is within every
  radius; the box around the centre spans the longitudes \<open>180 \<plusminus> 1/111\<close> only, the
  cell of the point is not visited, and \<open>queryRadius\<close> with radius \<open>1\<close> returns nothing.
\<close>

theorem queryRadius_misses_antimeridian_point:
  "feat_geometry antimeridianPoint = Point \<lparr> latitude = 0, longitude = - 180 \<rparr>
   \<and> calculateDistance antimeridianCenter \<lparr> latitude = 0, longitude = - 180 \<rparr> \<le> 1
   \<and> queryRadius antimeridianCenter 1 (insert_feature antimeridianPoint newSpatialIndex) = Some []"
  by (simp add: antimeridian_distance queryRadius_def antimeridian_box query_def
        antimeridian_candidates)
     (simp add: antimeridianPoint_def)

text \<open>
  Claim C3, as the code has it. For an index built by insertions, a centre that is not
  at a pole and a radius \<open>R\<close>, a point feature \<open>P\<close> is returned by \<open>queryRadius\<close> exactly
  when it is the feature stored under its id, it lies in the box of
  \<open>createBoundingBox\<close>, and its haversine distance to the centre is at most \<open>R\<close>. So no
  point farther than \<open>R\<close> is returned, and a stored point within \<open>R\<close> is returned when it
  also lies in the approximate box.
\<close>

theorem queryRadius_stored_points:
  assumes box: "createBoundingBox C R = Some box"
    and pt: "feat_geometry P = Point p"
  shows "\<exists>res. queryRadius C R (fold insert_feature fs newSpatialIndex) = Some res \<and>
           (P \<in> set res \<longleftrightarrow>
              map_get (features (fold insert_feature fs newSpatialIndex)) (feat_id P) = Some P
              \<and> isPointInBounds p box \<and> calculateDistance C p \<le> R)"
proof -
  have ok: "index_ok (fold insert_feature fs newSpatialIndex)"
    by (rule index_ok_fold [OF index_ok_new])
  show ?thesis
    using query_point [OF ok pt, of box] box pt
    by (auto simp: queryRadius_def getFeatureCenter_def)
qed

theorem queryRadius_stored_points_witness: "createBoundingBox originCenter 111 = Some \<lparr> north = 1, south = - 1, east = 1, west = - 1 \<rparr>
   \<and> feat_geometry originPoint = Point originCenter
   \<and> (\<exists>res. queryRadius originCenter 111 (fold insert_feature [originPoint] newSpatialIndex) = Some res
        \<and> originPoint \<in> set res)"
  using queryRadius_stored_points [of originCenter 111 "\<lparr> north = 1, south = - 1, east = 1, west = - 1 \<rparr>"
       originPoint originCenter "[originPoint]"]
  by (simp add: createBoundingBox_def originCenter_def originPoint_def toRadians_def Let_def
       insert_feature_def newSpatialIndex_def map_get_def isPointInBounds_def calculateDistance_def atan2_def)


section \<open>Strings and regular expressions of the JavaScript runtime\<close>

text \<open>
  The parser is written with \<open>String.prototype\<close> methods and regular expression
  literals. Their meaning is that of the ECMAScript specification, restricted to what
  the parser's patterns use; \<open>code\<close> is the code unit of a character.
\<close>

definition code :: "char \<Rightarrow> nat" where
  "code c = of_char c"

definition isDigit :: "char \<Rightarrow> bool" where
  "isDigit c \<longleftrightarrow> 48 \<le> code c \<and> code c \<le> 57"

definition isUpper :: "char \<Rightarrow> bool" where
  "isUpper c \<longleftrightarrow> 65 \<le> code c \<and> code c \<le> 90"

definition isLower :: "char \<Rightarrow> bool" where
  "isLower c \<longleftrightarrow> 97 \<le> code c \<and> code c \<le> 122"

text \<open>\<open>\w\<close> is \<open>[A-Za-z0-9_]\<close>; \<open>\s\<close> is the white space below \<open>256\<close>, as is what \<open>trim\<close> removes.\<close>

definition isWordChar :: "char \<Rightarrow> bool" where
  "isWordChar c \<longleftrightarrow> isLower c \<or> isUpper c \<or> isDigit c \<or> code c = 95"

definition isSpace :: "char \<Rightarrow> bool" where
  "isSpace c \<longleftrightarrow> code c \<in> {9, 10, 11, 12, 13, 32, 160}"

text \<open>
  \<open>toLowerCase\<close> on code units below \<open>256\<close>: the letters \<open>A-Z\<close> and the Latin-1 capitals
  \<open>0xC0-0xDE\<close> (without the multiplication sign \<open>0xD7\<close>) move up by \<open>32\<close>.
\<close>

definition lowerChar :: "char \<Rightarrow> char" where
  "lowerChar c =
     (if isUpper c \<or> (192 \<le> code c \<and> code c \<le> 222 \<and> code c \<noteq> 215)
      then char_of (code c + 32) else c)"

definition toLowerCase :: "string \<Rightarrow> string" where
  "toLowerCase s = map lowerChar s"

definition trim :: "string \<Rightarrow> string" where
  "trim s = rev (dropWhile isSpace (rev (dropWhile isSpace s)))"

fun startsWith :: "string \<Rightarrow> string \<Rightarrow> bool" where
  "startsWith s [] = True"
| "startsWith [] (k # ks) = False"
| "startsWith (c # cs) (k # ks) = (c = k \<and> startsWith cs ks)"

fun str_includes :: "string \<Rightarrow> string \<Rightarrow> bool" where
  "str_includes [] k = startsWith [] k"
| "str_includes (c # cs) k = (startsWith (c # cs) k \<or> str_includes cs k)"

definition substring :: "string \<Rightarrow> nat \<Rightarrow> nat \<Rightarrow> string" where
  "substring s i j = take (j - i) (drop i s)"

text \<open>
  \<open>String.prototype.replace\<close> with a string pattern replaces the first occurrence only.
\<close>

fun replaceFirst :: "string \<Rightarrow> string \<Rightarrow> string \<Rightarrow> string" where
  "replaceFirst [] k w = (if k = [] then w else [])"
| "replaceFirst (c # cs) k w =
     (if startsWith (c # cs) k then w @ drop (length k) (c # cs) else c # replaceFirst cs k w)"

text \<open>
  \<open>parseFloat\<close> on a decimal literal: an optional sign, digits, and an optional
  fraction. The parser calls it on text matched by \<open>-?\d+\.?\d*\<close>, which has no exponent.
  Without any digit the result is \<open>NaN\<close>.
\<close>

definition digitsValue :: "string \<Rightarrow> nat" where
  "digitsValue ds = foldl (\<lambda>a d. 10 * a + (code d - 48)) 0 ds"

definition parseFloat :: "string \<Rightarrow> number" where
  "parseFloat s =
     (let t = dropWhile isSpace s;
          neg = (case t of c # _ \<Rightarrow> c = CHR ''-'' | [] \<Rightarrow> False);
          u = (case t of c # cs \<Rightarrow> if c = CHR ''-'' \<or> c = CHR ''+'' then cs else t | [] \<Rightarrow> []);
          ds = takeWhile isDigit u;
          v = dropWhile isDigit u;
          fs = (case v of c # cs \<Rightarrow> if c = CHR ''.'' then takeWhile isDigit cs else [] | [] \<Rightarrow> []);
          x = real (digitsValue ds) + real (digitsValue fs) / 10 ^ length fs
      in if ds = [] \<and> fs = [] then NaN else Num (if neg then - x else x))"

text \<open>
  Case-insensitive matching compares canonical forms: the upper case of a character,
  where a character at or above \<open>128\<close> never becomes one below \<open>128\<close>. The patterns of
  the parser consist of characters below \<open>128\<close>, for which only \<open>a-z\<close> change.
\<close>

definition canonicalize :: "char \<Rightarrow> char" where
  "canonicalize c = (if isLower c then char_of (code c - 32) else c)"

datatype class_item = Single char | Range char char | Digits | Spaces

text \<open>
  A class matches a character, without the flag \<open>i\<close>, when the character is a member;
  with the flag, when some member has the same canonical form.
\<close>

fun item_matches :: "bool \<Rightarrow> char \<Rightarrow> class_item \<Rightarrow> bool" where
  "item_matches ic c (Single d) = (if ic then canonicalize d = canonicalize c else c = d)"
| "item_matches ic c (Range lo hi) =
     (if ic then list_ex (\<lambda>n. canonicalize (char_of n) = canonicalize c) [code lo..<Suc (code hi)]
      else code lo \<le> code c \<and> code c \<le> code hi)"
| "item_matches ic c Digits = isDigit c"
| "item_matches ic c Spaces = isSpace c"

datatype regex =
    Chars "class_item list"
  | Empty
  | Seq regex regex
  | Alt regex regex
  | Star regex
  | LazyStar regex
  | Group nat regex
  | WordBoundary
  | EndOfInput

text \<open>
  A cursor is a position in the input: the text that remains, the index, and whether
  the character before it is a word character (for \<open>\b\<close>). A capture is a group number
  with its start and end index.
\<close>

type_synonym captures = "(nat \<times> nat \<times> nat) list"

record cursor =
  cur_afterWord :: bool
  cur_rest :: string
  cur_pos :: nat

type_synonym outcome = "cursor \<times> captures"

text \<open>
  The matcher returns the ways in which a pattern matches at a cursor, in the order in
  which a backtracking matcher tries them; the first is the match that \<open>exec\<close> reports.
  A further iteration of \<open>*\<close> must consume a character. The second argument of the two
  functions for \<open>*\<close> bounds the number of iterations; it is the length of the remaining
  text, which no sequence of consuming iterations exceeds.
\<close>

primrec star_greedy :: "(cursor \<Rightarrow> captures \<Rightarrow> outcome list) \<Rightarrow> nat \<Rightarrow> cursor \<Rightarrow> captures
                         \<Rightarrow> outcome list" where
  "star_greedy f 0 p c = [(p, c)]"
| "star_greedy f (Suc n) p c =
     concat (map (\<lambda>(q, c'). if cur_pos p < cur_pos q then star_greedy f n q c' else []) (f p c))
     @ [(p, c)]"

primrec star_lazy :: "(cursor \<Rightarrow> captures \<Rightarrow> outcome list) \<Rightarrow> nat \<Rightarrow> cursor \<Rightarrow> captures
                       \<Rightarrow> outcome list" where
  "star_lazy f 0 p c = [(p, c)]"
| "star_lazy f (Suc n) p c =
     (p, c) # concat (map (\<lambda>(q, c'). if cur_pos p < cur_pos q then star_lazy f n q c' else [])
                          (f p c))"

primrec ms :: "bool \<Rightarrow> regex \<Rightarrow> cursor \<Rightarrow> captures \<Rightarrow> outcome list" where
  "ms ic (Chars items) p c =
     (case cur_rest p of
        [] \<Rightarrow> []
      | ch # s \<Rightarrow>
          if list_ex (item_matches ic ch) items
          then [(\<lparr> cur_afterWord = isWordChar ch, cur_rest = s, cur_pos = Suc (cur_pos p) \<rparr>, c)]
          else [])"
| "ms ic Empty p c = [(p, c)]"
| "ms ic (Seq r1 r2) p c = concat (map (\<lambda>(q, c'). ms ic r2 q c') (ms ic r1 p c))"
| "ms ic (Alt r1 r2) p c = ms ic r1 p c @ ms ic r2 p c"
| "ms ic (Star r) p c = star_greedy (ms ic r) (length (cur_rest p)) p c"
| "ms ic (LazyStar r) p c = star_lazy (ms ic r) (length (cur_rest p)) p c"
| "ms ic (Group n r) p c = map (\<lambda>(q, c'). (q, (n, cur_pos p, cur_pos q) # c')) (ms ic r p c)"
| "ms ic WordBoundary p c =
     (if cur_afterWord p \<noteq> (case cur_rest p of [] \<Rightarrow> False | ch # _ \<Rightarrow> isWordChar ch)
      then [(p, c)] else [])"
| "ms ic EndOfInput p c = (if cur_rest p = [] then [(p, c)] else [])"

definition lit :: "string \<Rightarrow> regex" where
  "lit w = foldr (\<lambda>ch r. Seq (Chars [Single ch]) r) w Empty"

definition seqs :: "regex list \<Rightarrow> regex" where
  "seqs rs = foldr Seq rs Empty"

fun alts :: "regex list \<Rightarrow> regex" where
  "alts [] = Chars []"
| "alts [r] = r"
| "alts (r # rs) = Alt r (alts rs)"

definition Plus :: "regex \<Rightarrow> regex" where
  "Plus r = Seq r (Star r)"

definition LazyPlus :: "regex \<Rightarrow> regex" where
  "LazyPlus r = Seq r (LazyStar r)"

definition Opt :: "regex \<Rightarrow> regex" where
  "Opt r = Alt r Empty"

definition digit :: regex where
  "digit = Chars [Digits]"

definition whitespace :: regex where
  "whitespace = Chars [Spaces]"

record match =
  m_index :: nat
  m_end :: cursor
  m_groups :: captures

text \<open>
  \<open>exec\<close> tries the pattern at the cursor and then at every later position.
\<close>

function exec :: "bool \<Rightarrow> regex \<Rightarrow> cursor \<Rightarrow> match option" where
  "exec ic r p =
     (case ms ic r p [] of
        (q, c) # _ \<Rightarrow> Some \<lparr> m_index = cur_pos p, m_end = q, m_groups = c \<rparr>
      | [] \<Rightarrow>
          (case cur_rest p of
             [] \<Rightarrow> None
           | ch # s \<Rightarrow>
               exec ic r \<lparr> cur_afterWord = isWordChar ch, cur_rest = s, cur_pos = Suc (cur_pos p) \<rparr>))"
  by pat_completeness auto
termination
  by (relation "measure (\<lambda>(ic, r, p). length (cur_rest p))") auto

declare exec.simps [simp del]

definition startOf :: "string \<Rightarrow> cursor" where
  "startOf s = \<lparr> cur_afterWord = False, cur_rest = s, cur_pos = 0 \<rparr>"

definition matchText :: "string \<Rightarrow> match \<Rightarrow> string" where
  "matchText s m = substring s (m_index m) (cur_pos (m_end m))"

definition groupText :: "string \<Rightarrow> match \<Rightarrow> nat \<Rightarrow> string option" where
  "groupText s m n = map_option (\<lambda>(i, j). substring s i j) (map_of (m_groups m) n)"

subsection \<open>Progress of the matcher and the loop over all matches\<close>

definition reaches :: "cursor \<Rightarrow> cursor \<Rightarrow> bool" where
  "reaches p q \<longleftrightarrow>
     (\<exists>k\<le>length (cur_rest p). cur_rest q = drop k (cur_rest p) \<and> cur_pos q = cur_pos p + k)"

lemma reaches_refl: "reaches p p"
  unfolding reaches_def by (rule exI [of _ 0]) simp

lemma reaches_trans:
  assumes "reaches p q" and "reaches q r"
  shows "reaches p r"
proof -
  from assms(1) obtain k where k: "k \<le> length (cur_rest p)" "cur_rest q = drop k (cur_rest p)"
      "cur_pos q = cur_pos p + k"
    unfolding reaches_def by blast
  from assms(2) obtain l where l: "l \<le> length (cur_rest q)" "cur_rest r = drop l (cur_rest q)"
      "cur_pos r = cur_pos q + l"
    unfolding reaches_def by blast
  have "k + l \<le> length (cur_rest p)" using k l by simp
  moreover have "cur_rest r = drop (k + l) (cur_rest p)" using k l by (simp add: add.commute)
  moreover have "cur_pos r = cur_pos p + (k + l)" using k l by simp
  ultimately show ?thesis unfolding reaches_def by blast
qed

lemma reaches_step:
  "cur_rest p = ch # s \<Longrightarrow> reaches p \<lparr> cur_afterWord = w, cur_rest = s, cur_pos = Suc (cur_pos p) \<rparr>"
  unfolding reaches_def by (rule exI [of _ 1]) simp

lemma reaches_length: "reaches p q \<Longrightarrow> length (cur_rest q) \<le> length (cur_rest p)"
  unfolding reaches_def by auto

lemma reaches_pos: "reaches p q \<Longrightarrow> cur_pos p \<le> cur_pos q"
  unfolding reaches_def by auto

lemma reaches_shorter:
  "reaches p q \<Longrightarrow> cur_pos p < cur_pos q \<Longrightarrow> length (cur_rest q) < length (cur_rest p)"
  unfolding reaches_def by auto

lemma star_greedy_reaches:
  assumes f: "\<And>p c q c'. (q, c') \<in> set (f p c) \<Longrightarrow> reaches p q"
  shows "(q, c') \<in> set (star_greedy f n p c) \<Longrightarrow> reaches p q"
proof (induction n arbitrary: p c)
  case 0
  then show ?case by (simp add: reaches_refl)
next
  case (Suc n)
  from Suc.prems consider "(q, c') = (p, c)"
    | m d where "(m, d) \<in> set (f p c)" "cur_pos p < cur_pos m" "(q, c') \<in> set (star_greedy f n m d)"
    by (auto split: if_splits)
  then show ?case
  proof cases
    case 1
    then show ?thesis by (simp add: reaches_refl)
  next
    case 2
    then show ?thesis using f Suc.IH reaches_trans by blast
  qed
qed

lemma star_lazy_reaches:
  assumes f: "\<And>p c q c'. (q, c') \<in> set (f p c) \<Longrightarrow> reaches p q"
  shows "(q, c') \<in> set (star_lazy f n p c) \<Longrightarrow> reaches p q"
proof (induction n arbitrary: p c)
  case 0
  then show ?case by (simp add: reaches_refl)
next
  case (Suc n)
  from Suc.prems consider "(q, c') = (p, c)"
    | m d where "(m, d) \<in> set (f p c)" "cur_pos p < cur_pos m" "(q, c') \<in> set (star_lazy f n m d)"
    by (auto split: if_splits)
  then show ?case
  proof cases
    case 1
    then show ?thesis by (simp add: reaches_refl)
  next
    case 2
    then show ?thesis using f Suc.IH reaches_trans by blast
  qed
qed

lemma ms_reaches: "(q, c') \<in> set (ms ic r p c) \<Longrightarrow> reaches p q"
proof (induction r arbitrary: p c q c')
  case (Chars items)
  then show ?case by (auto split: list.splits if_splits intro: reaches_step [OF sym])
next
  case Empty
  then show ?case by (simp add: reaches_refl)
next
  case (Seq r1 r2)
  from Seq.prems obtain m d where "(m, d) \<in> set (ms ic r1 p c)" "(q, c') \<in> set (ms ic r2 m d)"
    by auto
  then show ?case using Seq.IH reaches_trans by blast
next
  case (Alt r1 r2)
  then show ?case by auto
next
  case (Star r)
  then show ?case using star_greedy_reaches [of "ms ic r"] by simp
next
  case (LazyStar r)
  then show ?case using star_lazy_reaches [of "ms ic r"] by simp
next
  case (Group n r)
  then show ?case by auto
next
  case WordBoundary
  then show ?case by (auto split: if_splits simp: reaches_refl)
next
  case EndOfInput
  then show ?case by (auto split: if_splits simp: reaches_refl)
qed

lemma exec_reaches:
  "exec ic r p = Some m \<Longrightarrow>
     (\<exists>p'. reaches p p' \<and> m_index m = cur_pos p' \<and> reaches p' (m_end m))"
proof (induction ic r p rule: exec.induct)
  case (1 ic r p)
  show ?case
  proof (cases "ms ic r p []")
    case Nil
    then obtain ch s where s: "cur_rest p = ch # s"
      using "1.prems" by (cases "cur_rest p") (simp_all add: exec.simps [of ic r p])
    let ?p1 = "\<lparr> cur_afterWord = isWordChar ch, cur_rest = s, cur_pos = Suc (cur_pos p) \<rparr>"
    have "exec ic r ?p1 = Some m"
      using "1.prems" Nil s by (simp add: exec.simps [of ic r p])
    then obtain p' where "reaches ?p1 p'" "m_index m = cur_pos p'" "reaches p' (m_end m)"
      using "1.IH" [OF Nil s] by blast
    moreover have "reaches p ?p1" using s by (rule reaches_step)
    ultimately show ?thesis using reaches_trans by blast
  next
    case (Cons a list)
    obtain q c where a: "a = (q, c)" by (cases a)
    have m: "m = \<lparr> m_index = cur_pos p, m_end = q, m_groups = c \<rparr>"
      using "1.prems" Cons a by (simp add: exec.simps [of ic r p])
    have "reaches p q" using ms_reaches [of q c ic r p "[]"] Cons a by simp
    then show ?thesis using m reaches_refl by auto
  qed
qed

lemma exec_progress:
  assumes "exec ic r p = Some m" and "cur_pos (m_end m) \<noteq> m_index m"
  shows "length (cur_rest (m_end m)) < length (cur_rest p)"
proof -
  from exec_reaches [OF assms(1)] obtain p' where p': "reaches p p'" "m_index m = cur_pos p'"
      "reaches p' (m_end m)" by blast
  have "cur_pos p' < cur_pos (m_end m)"
    using reaches_pos [OF p'(3)] assms(2) p'(2) by simp
  then have "length (cur_rest (m_end m)) < length (cur_rest p')"
    using p'(3) by (rule reaches_shorter [rotated])
  then show ?thesis using reaches_length [OF p'(1)] by simp
qed

text \<open>
  The loop \<open>while ((match = pattern.exec(text)) !== null)\<close> of a pattern with the flag
  \<open>g\<close>: every \<open>exec\<close> starts where the last match ended. After an empty match the next
  \<open>exec\<close> starts at the same index and finds the same match, and the loop of the source
  does not end: the result is \<open>None\<close>.
\<close>

function execAll :: "bool \<Rightarrow> regex \<Rightarrow> cursor \<Rightarrow> match list option" where
  "execAll ic r p =
     (case exec ic r p of
        None \<Rightarrow> Some []
      | Some m \<Rightarrow>
          if cur_pos (m_end m) = m_index m then None
          else map_option ((#) m) (execAll ic r (m_end m)))"
  by pat_completeness auto
termination
  by (relation "measure (\<lambda>(ic, r, p). length (cur_rest p))") (auto intro: exec_progress)

declare execAll.simps [simp del]


section \<open>Query types (lib/query/types.ts)\<close>

datatype intent_type = Search | Compare | Analyze | Describe | FindNearby | Route | ChangeDetection

record QueryIntent =
  qi_type :: intent_type
  qi_subtype :: "string option"
  qi_description :: string

datatype entity_type = Location | FeatureType | Measurement | Time | Organization

datatype distance_unit = Km | Miles | Meters

text \<open>
  The \<open>value\<close> of an entity is untyped in the source. The parser stores a string (a named
  location, a feature type), a coordinate pair, or a distance with its unit.
\<close>

datatype entity_value =
    TextValue string
  | CoordsValue Coordinates
  | MeasureValue number distance_unit

record ExtractedEntity =
  e_text :: string
  e_type :: entity_type
  e_value :: entity_value
  e_confidence :: real
  e_start :: nat
  e_end :: nat

datatype constraint_type = CPoint | CRadius | CBounds | CPolygon | CWithin | CIntersects | CNear

record ConstraintParameters =
  cp_radius :: "number option"
  cp_unit :: "distance_unit option"
  cp_locationName :: "entity_value option"

text \<open>The parser only ever stores a coordinate pair as the geometry of a constraint.\<close>

record SpatialConstraint =
  con_type :: constraint_type
  con_geometry :: Coordinates
  con_parameters :: "ConstraintParameters option"

datatype temporal_type = TBefore | TAfter | TBetween | TDuring | TRecent

record TemporalConstraint =
  tc_type :: temporal_type
  tc_startDate :: "string option"
  tc_endDate :: "string option"
  tc_period :: "string option"

datatype filter_operator = Equals | Contains | GreaterThan | LessThan | In | NotIn

datatype filter_value = FilterText string | FilterNumber number

record QueryFilter =
  f_field :: string
  f_operator :: filter_operator
  f_value :: filter_value

record ParsedQuery =
  pq_intent :: QueryIntent
  pq_entities :: "ExtractedEntity list"
  pq_spatialConstraints :: "SpatialConstraint list"
  pq_temporalConstraints :: "TemporalConstraint list"
  pq_filters :: "QueryFilter list"
  pq_confidence :: real


section \<open>Query parser (GeographicQueryParser)\<close>

text \<open>The patterns, each with its flag \<open>i\<close>. All of them have the flag \<open>g\<close>.\<close>

definition letters :: "class_item list" where
  "letters = [Range CHR ''a'' CHR ''z'', Range CHR ''A'' CHR ''Z'']"

definition capital :: regex where
  "capital = Chars [Range CHR ''A'' CHR ''Z'']"

definition LOCATION_PATTERN_1 :: regex where
  "LOCATION_PATTERN_1 =
     seqs [WordBoundary,
           alts [lit ''in'', lit ''at'', lit ''near'', lit ''around'', lit ''within''],
           Plus whitespace,
           Group 1 (seqs [capital, LazyPlus (Chars (letters @ [Spaces, Single CHR '','']))]),
           alts [whitespace, EndOfInput, lit '','']]"

definition LOCATION_PATTERN_2 :: regex where
  "LOCATION_PATTERN_2 =
     seqs [WordBoundary,
           Group 1 (seqs [capital, Plus (Chars (letters @ [Spaces])),
                          alts [lit ''City'', lit ''County'', lit ''State'', lit ''Province'',
                                lit ''Country'', lit ''Park'', lit ''Mountain'', lit ''River'',
                                lit ''Lake'']]),
           WordBoundary]"

definition LOCATION_PATTERN_3 :: regex where
  "LOCATION_PATTERN_3 =
     seqs [WordBoundary,
           Group 1 (seqs [Plus digit, Opt (lit ''.''), Star digit]),
           Star whitespace, lit '','', Star whitespace,
           Group 2 (seqs [Plus digit, Opt (lit ''.''), Star digit]),
           WordBoundary]"

definition LOCATION_PATTERNS :: "(bool \<times> regex) list" where
  "LOCATION_PATTERNS =
     [(True, LOCATION_PATTERN_1), (True, LOCATION_PATTERN_2), (False, LOCATION_PATTERN_3)]"

definition coordPattern :: regex where
  "coordPattern =
     seqs [WordBoundary,
           Group 1 (seqs [Opt (lit ''-''), Plus digit, Opt (lit ''.''), Star digit]),
           Star whitespace, lit '','', Star whitespace,
           Group 2 (seqs [Opt (lit ''-''), Plus digit, Opt (lit ''.''), Star digit]),
           WordBoundary]"

definition decimal :: regex where
  "decimal = seqs [Plus digit, Opt (seqs [lit ''.'', Plus digit])]"

definition unitWords :: regex where
  "unitWords =
     alts [lit ''km'', seqs [lit ''kilometer'', Opt (lit ''s'')], seqs [lit ''mile'', Opt (lit ''s'')],
           seqs [lit ''meter'', Opt (lit ''s'')], lit ''m'']"

definition DISTANCE_PATTERN_1 :: regex where
  "DISTANCE_PATTERN_1 =
     seqs [WordBoundary, Group 1 decimal, Star whitespace, Group 2 unitWords, WordBoundary]"

definition DISTANCE_PATTERN_2 :: regex where
  "DISTANCE_PATTERN_2 =
     seqs [WordBoundary, lit ''within'', Plus whitespace, Group 1 decimal, Star whitespace,
           Group 2 unitWords, WordBoundary]"

definition DISTANCE_PATTERNS :: "(bool \<times> regex) list" where
  "DISTANCE_PATTERNS = [(True, DISTANCE_PATTERN_1), (True, DISTANCE_PATTERN_2)]"

definition isoDate :: regex where
  "isoDate = seqs [digit, digit, digit, digit, lit ''-'', digit, digit, lit ''-'', digit, digit]"

definition TIME_PATTERN_1 :: regex where
  "TIME_PATTERN_1 =
     seqs [WordBoundary, Group 1 (alts [lit ''last'', lit ''past'']), Plus whitespace,
           Group 2 (Plus digit), Plus whitespace,
           Group 3 (alts [seqs [lit ''day'', Opt (lit ''s'')], seqs [lit ''week'', Opt (lit ''s'')],
                          seqs [lit ''month'', Opt (lit ''s'')], seqs [lit ''year'', Opt (lit ''s'')]]),
           WordBoundary]"

definition TIME_PATTERN_2 :: regex where
  "TIME_PATTERN_2 =
     seqs [WordBoundary, Group 1 (alts [lit ''before'', lit ''after'', lit ''since'']),
           Plus whitespace,
           Group 2 (alts [isoDate,
                          seqs [digit, Opt digit, lit ''/'', digit, Opt digit, lit ''/'',
                                digit, digit, digit, digit]]),
           WordBoundary]"

definition TIME_PATTERN_3 :: regex where
  "TIME_PATTERN_3 =
     seqs [WordBoundary, Group 1 (lit ''between''), Plus whitespace, Group 2 isoDate,
           Plus whitespace, lit ''and'', Plus whitespace, Group 3 isoDate, WordBoundary]"

definition TIME_PATTERNS :: "(bool \<times> regex) list" where
  "TIME_PATTERNS = [(True, TIME_PATTERN_1), (True, TIME_PATTERN_2), (True, TIME_PATTERN_3)]"

definition INTENT_KEYWORDS :: "(intent_type \<times> string list) list" where
  "INTENT_KEYWORDS =
     [(Search, [''find'', ''search'', ''locate'', ''show'', ''list'', ''get'']),
      (Compare, [''compare'', ''difference'', ''versus'', ''vs'', ''contrast'']),
      (Analyze, [''analyze'', ''analysis'', ''examine'', ''study'', ''investigate'']),
      (Describe, [''describe'', ''what is'', ''tell me about'', ''information about'']),
      (FindNearby, [''nearby'', ''close to'', ''around'', ''near'', ''within'']),
      (Route, [''route'', ''path'', ''direction'', ''navigate'', ''travel'']),
      (ChangeDetection, [''change'', ''changed'', ''difference'', ''evolution'', ''trend''])]"

definition FEATURE_TYPES :: "string list" where
  "FEATURE_TYPES =
     [''city'', ''town'', ''village'', ''mountain'', ''river'', ''lake'', ''forest'', ''park'',
      ''building'', ''road'', ''highway'', ''airport'', ''hospital'', ''school'', ''restaurant'',
      ''vegetation'', ''water'', ''urban'', ''agriculture'', ''desert'', ''coastline'']"

definition featurePattern :: "string \<Rightarrow> regex" where
  "featurePattern featureType = seqs [WordBoundary, lit featureType, Opt (lit ''s''), WordBoundary]"

definition intentName :: "intent_type \<Rightarrow> string" where
  "intentName t =
     (case t of Search \<Rightarrow> ''search'' | Compare \<Rightarrow> ''compare'' | Analyze \<Rightarrow> ''analyze''
      | Describe \<Rightarrow> ''describe'' | FindNearby \<Rightarrow> ''find_nearby'' | Route \<Rightarrow> ''route''
      | ChangeDetection \<Rightarrow> ''change_detection'')"

definition generateIntentDescription :: "intent_type \<Rightarrow> string option \<Rightarrow> string" where
  "generateIntentDescription t subtype =
     (let description =
            (case t of
               Search \<Rightarrow> ''Search for geographic information''
             | Compare \<Rightarrow> ''Compare geographic features or areas''
             | Analyze \<Rightarrow> ''Analyze geographic data or patterns''
             | Describe \<Rightarrow> ''Describe geographic features or locations''
             | FindNearby \<Rightarrow> ''Find nearby geographic features''
             | Route \<Rightarrow> ''Find routes or directions''
             | ChangeDetection \<Rightarrow> ''Detect changes over time'')
      in case subtype of
           None \<Rightarrow> description
         | Some st \<Rightarrow>
             if st = [] then description
             else description @ '' ('' @ replaceFirst st ''_'' '' '' @ '')'')"

definition keywordScore :: "string \<Rightarrow> string list \<Rightarrow> nat" where
  "keywordScore queryText keywords =
     foldl (\<lambda>sum keyword. sum + (if str_includes queryText keyword then 1 else 0)) 0 keywords"

definition bestIntent :: "string \<Rightarrow> intent_type \<times> nat" where
  "bestIntent queryText =
     foldl (\<lambda>bestMatch (intentType, keywords).
              let score = keywordScore queryText keywords
              in if score > snd bestMatch then (intentType, score) else bestMatch)
           (Search, 0) INTENT_KEYWORDS"

definition extractIntent :: "string \<Rightarrow> QueryIntent" where
  "extractIntent queryText =
     (let bestMatch = bestIntent queryText;
          subtype =
            (if fst bestMatch = Search then
               (if str_includes queryText ''satellite'' \<or> str_includes queryText ''imagery''
                then Some ''satellite_analysis''
                else if str_includes queryText ''feature'' \<or> str_includes queryText ''geographic''
                then Some ''geographic_features''
                else None)
             else None)
      in \<lparr> qi_type = fst bestMatch, qi_subtype = subtype,
           qi_description = generateIntentDescription (fst bestMatch) subtype \<rparr>)"

definition normalizeUnit :: "string \<Rightarrow> distance_unit" where
  "normalizeUnit unit =
     (let normalized = toLowerCase unit
      in if str_includes normalized ''mile'' then Miles
         else if str_includes normalized ''meter'' \<or> normalized = ''m'' then Meters
         else Km)"

text \<open>
  \<open>forEachPattern\<close> is \<open>patterns.forEach\<close> around the \<open>while\<close> loop over \<open>exec\<close>: the entries
  that the body pushes for each match, pattern by pattern; \<open>None\<close> when a loop does not end.
\<close>

fun forEachPattern :: "(bool \<times> regex) list \<Rightarrow> string \<Rightarrow> (match \<Rightarrow> 'a list) \<Rightarrow> 'a list option" where
  "forEachPattern [] s body = Some []"
| "forEachPattern ((ic, r) # ps) s body =
     (case execAll ic r (startOf s) of
        None \<Rightarrow> None
      | Some found \<Rightarrow> map_option ((@) (concat (map body found))) (forEachPattern ps s body))"

definition groupOrEmpty :: "string \<Rightarrow> match \<Rightarrow> nat \<Rightarrow> string" where
  "groupOrEmpty s m n = (case groupText s m n of None \<Rightarrow> [] | Some g \<Rightarrow> g)"

definition locationEntityOf :: "string \<Rightarrow> match \<Rightarrow> ExtractedEntity list" where
  "locationEntityOf queryText m =
     (case groupText queryText m 1 of
        None \<Rightarrow> []
      | Some g \<Rightarrow>
          if g \<noteq> [] \<and> length (trim g) > 2
          then [\<lparr> e_text = trim g, e_type = Location, e_value = TextValue (trim g),
                  e_confidence = 0.8, e_start = m_index m, e_end = cur_pos (m_end m) \<rparr>]
          else [])"

definition numberBetween :: "number \<Rightarrow> real \<Rightarrow> real \<Rightarrow> bool" where
  "numberBetween x lo hi = (case x of NaN \<Rightarrow> False | Num v \<Rightarrow> v \<ge> lo \<and> v \<le> hi)"

definition numberValue :: "number \<Rightarrow> real" where
  "numberValue x = (case x of Num v \<Rightarrow> v | NaN \<Rightarrow> 0)"

definition coordinateEntityOf :: "string \<Rightarrow> match \<Rightarrow> ExtractedEntity list" where
  "coordinateEntityOf queryText m =
     (let lat = parseFloat (groupOrEmpty queryText m 1);
          lon = parseFloat (groupOrEmpty queryText m 2)
      in if numberBetween lat (- 90) 90 \<and> numberBetween lon (- 180) 180
         then [\<lparr> e_text = matchText queryText m, e_type = Location,
                 e_value = CoordsValue \<lparr> latitude = numberValue lat, longitude = numberValue lon \<rparr>,
                 e_confidence = 0.95, e_start = m_index m, e_end = cur_pos (m_end m) \<rparr>]
         else [])"

definition featureEntityOf :: "string \<Rightarrow> string \<Rightarrow> match \<Rightarrow> ExtractedEntity list" where
  "featureEntityOf queryText featureType m =
     [\<lparr> e_text = matchText queryText m, e_type = FeatureType, e_value = TextValue featureType,
        e_confidence = 0.9, e_start = m_index m, e_end = cur_pos (m_end m) \<rparr>]"

definition measurementEntityOf :: "string \<Rightarrow> match \<Rightarrow> ExtractedEntity list" where
  "measurementEntityOf queryText m =
     (let v = parseFloat (groupOrEmpty queryText m 1);
          unit = toLowerCase (groupOrEmpty queryText m 2)
      in [\<lparr> e_text = matchText queryText m, e_type = Measurement,
            e_value = MeasureValue v (normalizeUnit unit),
            e_confidence = 0.95, e_start = m_index m, e_end = cur_pos (m_end m) \<rparr>])"

fun featureEntities :: "string list \<Rightarrow> string \<Rightarrow> ExtractedEntity list option" where
  "featureEntities [] queryText = Some []"
| "featureEntities (featureType # fts) queryText =
     (case execAll True (featurePattern featureType) (startOf queryText) of
        None \<Rightarrow> None
      | Some found \<Rightarrow>
          map_option ((@) (concat (map (featureEntityOf queryText featureType) found)))
                     (featureEntities fts queryText))"

definition extractEntities :: "string \<Rightarrow> ExtractedEntity list option" where
  "extractEntities queryText =
     (case forEachPattern LOCATION_PATTERNS queryText (locationEntityOf queryText) of
        None \<Rightarrow> None
      | Some locations \<Rightarrow>
     (case execAll False coordPattern (startOf queryText) of
        None \<Rightarrow> None
      | Some coordMatches \<Rightarrow>
     (case featureEntities FEATURE_TYPES queryText of
        None \<Rightarrow> None
      | Some featureTypes \<Rightarrow>
     (case forEachPattern DISTANCE_PATTERNS queryText (measurementEntityOf queryText) of
        None \<Rightarrow> None
      | Some measurements \<Rightarrow>
          Some (locations @ concat (map (coordinateEntityOf queryText) coordMatches)
                @ featureTypes @ measurements)))))"

definition isCoordinates :: "entity_value \<Rightarrow> bool" where
  "isCoordinates v = (case v of CoordsValue _ \<Rightarrow> True | _ \<Rightarrow> False)"

definition coordinatesOf :: "entity_value \<Rightarrow> Coordinates" where
  "coordinatesOf v = (case v of CoordsValue c \<Rightarrow> c | _ \<Rightarrow> \<lparr> latitude = 0, longitude = 0 \<rparr>)"

text \<open>\<open>value.distance\<close> and \<open>value.unit\<close>: \<open>undefined\<close> on a value that is not a measurement.\<close>

definition distanceOf :: "entity_value \<Rightarrow> number option" where
  "distanceOf v = (case v of MeasureValue d _ \<Rightarrow> Some d | _ \<Rightarrow> None)"

definition unitOf :: "entity_value \<Rightarrow> distance_unit option" where
  "unitOf v = (case v of MeasureValue _ u \<Rightarrow> Some u | _ \<Rightarrow> None)"

definition locationConstraint :: "ExtractedEntity list \<Rightarrow> ExtractedEntity \<Rightarrow> SpatialConstraint" where
  "locationConstraint measurementEntities locationEntity =
     (if isCoordinates (e_value locationEntity) then
        (let coords = coordinatesOf (e_value locationEntity)
         in case find (\<lambda>m. \<bar>int (e_start m) - int (e_end locationEntity)\<bar> < 50) measurementEntities of
              Some nearbyMeasurement \<Rightarrow>
                \<lparr> con_type = CRadius, con_geometry = coords,
                  con_parameters = Some \<lparr> cp_radius = distanceOf (e_value nearbyMeasurement),
                                          cp_unit = unitOf (e_value nearbyMeasurement),
                                          cp_locationName = None \<rparr> \<rparr>
            | None \<Rightarrow> \<lparr> con_type = CPoint, con_geometry = coords, con_parameters = None \<rparr>)
      else
        \<lparr> con_type = CWithin, con_geometry = \<lparr> latitude = 0, longitude = 0 \<rparr>,
          con_parameters = Some \<lparr> cp_radius = None, cp_unit = None,
                                  cp_locationName = Some (e_value locationEntity) \<rparr> \<rparr>)"

definition extractSpatialConstraints :: "string \<Rightarrow> ExtractedEntity list \<Rightarrow> SpatialConstraint list" where
  "extractSpatialConstraints queryText entities =
     (let locationEntities = filter (\<lambda>e. e_type e = Location) entities;
          measurementEntities = filter (\<lambda>e. e_type e = Measurement) entities;
          constraints = map (locationConstraint measurementEntities) locationEntities
      in if str_includes queryText ''nearby'' \<or> str_includes queryText ''around''
            \<or> str_includes queryText ''near''
         then
           (let defaultRadius =
                  (case measurementEntities of
                     m # _ \<Rightarrow> distanceOf (e_value m)
                   | [] \<Rightarrow> Some (Num 10))
            in case locationEntities of
                 location # _ \<Rightarrow>
                   if isCoordinates (e_value location)
                   then constraints @
                        [\<lparr> con_type = CRadius, con_geometry = coordinatesOf (e_value location),
                           con_parameters = Some \<lparr> cp_radius = defaultRadius, cp_unit = Some Km,
                                                   cp_locationName = None \<rparr> \<rparr>]
                   else constraints
               | [] \<Rightarrow> constraints)
         else constraints)"

text \<open>
  The dates of a temporal constraint come from \<open>new Date()\<close> and the calendar arithmetic
  of the runtime (\<open>setDate\<close>, \<open>setMonth\<close>, \<open>setFullYear\<close>, \<open>toISOString\<close>). They are a
  parameter of the parser: today's date and the date a number of days, months or years
  before it, as ISO strings.
\<close>

record Calendar =
  cal_today :: string
  cal_daysAgo :: "nat \<Rightarrow> string"
  cal_monthsAgo :: "nat \<Rightarrow> string"
  cal_yearsAgo :: "nat \<Rightarrow> string"

definition temporalConstraint :: "Calendar \<Rightarrow> string \<Rightarrow> match \<Rightarrow> TemporalConstraint list" where
  "temporalConstraint cal queryText m =
     (let g1 = groupOrEmpty queryText m 1
      in if g1 = ''last'' \<or> g1 = ''past'' then
           (let amount = digitsValue (takeWhile isDigit (groupOrEmpty queryText m 2));
                unit = toLowerCase (groupOrEmpty queryText m 3);
                startDate =
                  (if unit = ''days'' \<or> unit = ''day'' then cal_daysAgo cal amount
                   else if unit = ''weeks'' \<or> unit = ''week'' then cal_daysAgo cal (amount * 7)
                   else if unit = ''months'' \<or> unit = ''month'' then cal_monthsAgo cal amount
                   else if unit = ''years'' \<or> unit = ''year'' then cal_yearsAgo cal amount
                   else cal_today cal)
            in [\<lparr> tc_type = TBetween, tc_startDate = Some startDate,
                   tc_endDate = Some (cal_today cal), tc_period = None \<rparr>])
         else [])"

definition extractTemporalConstraints :: "Calendar \<Rightarrow> string \<Rightarrow> TemporalConstraint list option" where
  "extractTemporalConstraints cal queryText =
     forEachPattern TIME_PATTERNS queryText (temporalConstraint cal queryText)"

definition typeFilterPattern :: regex where
  "typeFilterPattern =
     seqs [alts [lit ''type'', lit ''category''], lit '':'', Star whitespace,
           Group 1 (Plus (Chars (letters @ [Single CHR ''_''])))]"

definition confidenceFilterPattern :: regex where
  "confidenceFilterPattern =
     seqs [alts [lit ''confidence'', lit ''accuracy''], Star whitespace,
           alts [lit ''>'', lit ''above'', lit ''greater than''], Star whitespace,
           Group 1 decimal]"

definition extractFilters :: "string \<Rightarrow> QueryFilter list" where
  "extractFilters queryText =
     (if str_includes queryText ''type:'' \<or> str_includes queryText ''category:'' then
        (case exec True typeFilterPattern (startOf queryText) of
           Some typeMatch \<Rightarrow>
             [\<lparr> f_field = ''type'', f_operator = Equals,
                f_value = FilterText (groupOrEmpty queryText typeMatch 1) \<rparr>]
         | None \<Rightarrow> [])
      else [])
     @
     (if str_includes queryText ''confidence'' \<or> str_includes queryText ''accuracy'' then
        (case exec True confidenceFilterPattern (startOf queryText) of
           Some confMatch \<Rightarrow>
             [\<lparr> f_field = ''confidence'', f_operator = GreaterThan,
                f_value = FilterNumber (parseFloat (groupOrEmpty queryText confMatch 1)) \<rparr>]
         | None \<Rightarrow> [])
      else [])"

definition calculateParsingConfidence ::
    "QueryIntent \<Rightarrow> ExtractedEntity list \<Rightarrow> SpatialConstraint list \<Rightarrow> real" where
  "calculateParsingConfidence intent entities spatialConstraints =
     (let c0 = 0.5;
          c1 = (if qi_type intent \<noteq> Search \<or> (case qi_subtype intent of None \<Rightarrow> False | Some st \<Rightarrow> st \<noteq> [])
                then c0 + 0.2 else c0);
          c2 = c1 + min (real (length entities) * 0.1) 0.3;
          c3 = c2 + min (real (length spatialConstraints) * 0.15) 0.3;
          avgEntityConfidence =
            (if length entities > 0
             then foldl (\<lambda>sum e. sum + e_confidence e) 0 entities / real (length entities)
             else 0);
          c4 = c3 + avgEntityConfidence * 0.2
      in min c4 1.0)"

definition parseQuery :: "Calendar \<Rightarrow> string \<Rightarrow> ParsedQuery option" where
  "parseQuery cal queryText =
     (let normalizedQuery = trim (toLowerCase queryText);
          intent = extractIntent normalizedQuery
      in case extractEntities queryText of
           None \<Rightarrow> None
         | Some entities \<Rightarrow>
             (let spatialConstraints = extractSpatialConstraints queryText entities
              in case extractTemporalConstraints cal normalizedQuery of
                   None \<Rightarrow> None
                 | Some temporalConstraints \<Rightarrow>
                     Some \<lparr> pq_intent = intent,
                            pq_entities = entities,
                            pq_spatialConstraints = spatialConstraints,
                            pq_temporalConstraints = temporalConstraints,
                            pq_filters = extractFilters normalizedQuery,
                            pq_confidence =
                              calculateParsingConfidence intent entities spatialConstraints \<rparr>))"


section \<open>Query executor (QueryExecutor)\<close>

datatype step_type = SpatialFilter | RagSearch | Analysis | Aggregation | Join

datatype step_parameters =
    ConstraintsParameter "SpatialConstraint list"
  | SearchParameters QueryIntent "ExtractedEntity list" "QueryFilter list" "TemporalConstraint list"
  | AnalysisParameter string
  | AggregationParameter string

record ExecutionStep =
  es_id :: string
  es_type :: step_type
  es_operation :: string
  es_parameters :: step_parameters
  es_dependencies :: "string list"

text \<open>
  The cache key of the source is \<open>btoa(JSON.stringify(keyData))\<close>, an injective encoding
  of the five fields of \<open>keyData\<close>; the model keeps the fields. \<open>sort()\<close> without a comparator
  orders strings by their code units.
\<close>

record CacheKey =
  key_intent :: intent_type
  key_entities :: "string list"
  key_spatial :: nat
  key_temporal :: nat
  key_text :: string

record QueryExecutionPlan =
  plan_steps :: "ExecutionStep list"
  plan_estimatedCost :: nat
  plan_cacheKey :: CacheKey

record ResultMetadata =
  rm_executionTime :: int
  rm_stepsExecuted :: nat
  rm_cacheHit :: bool
  rm_confidence :: real

text \<open>
  The \<open>error\<close> field of a result is a message. The message of the confidence gate embeds
  the confidence (printed with two decimals); it is kept as \<open>BelowThreshold\<close> with the
  number.
\<close>

datatype result_error = BelowThreshold real | Message string

record 'd QueryResult =
  qr_success :: bool
  qr_data :: "'d option"
  qr_metadata :: ResultMetadata
  qr_error :: "result_error option"

text \<open>
  The steps of a plan run against the RAG engine and the spatial index and return
  untyped objects. The executor is modelled over any type \<open>'r\<close> of step results: the four
  step functions, and the two readings that \<open>calculateResultConfidence\<close> takes from the
  result of the search step, are the fields of a \<open>Backend\<close>.
\<close>

record 'r Backend =
  executeSpatialFilter :: "ExecutionStep \<Rightarrow> ParsedQuery \<Rightarrow> error + 'r"
  executeRAGSearch :: "ExecutionStep \<Rightarrow> ParsedQuery \<Rightarrow> string \<Rightarrow> (string, 'r) js_map \<Rightarrow> error + 'r"
  executeAnalysis :: "ExecutionStep \<Rightarrow> (string, 'r) js_map \<Rightarrow> error + 'r"
  executeAggregation :: "ExecutionStep \<Rightarrow> (string, 'r) js_map \<Rightarrow> error + 'r"
  sourceScores :: "'r \<Rightarrow> real list"
  hasQueryLocation :: "'r \<Rightarrow> bool"

text \<open>The object that \<open>getFinalResult\<close> builds.\<close>

datatype 'r final_result =
    NoSearchResults
  | FinalResult (fr_search: 'r) (fr_queryIntent: QueryIntent) (fr_analysis: "'r option")
      (fr_aggregation: "'r option") (fr_spatialFiltering: "'r option")

record 'r QueryExecutor =
  queryCache :: "(CacheKey, 'r final_result QueryResult \<times> int) js_map"

definition CACHE_TTL :: int where
  "CACHE_TTL = 5 * 60 * 1000"

text \<open>The four readings of \<open>Date.now()\<close> during one \<open>executeQuery\<close>, in milliseconds.\<close>

record Clock =
  t_start :: int
  t_check :: int
  t_cache :: int
  t_end :: int

definition generateCacheKey :: "ParsedQuery \<Rightarrow> string \<Rightarrow> CacheKey" where
  "generateCacheKey parsedQuery originalText =
     \<lparr> key_intent = qi_type (pq_intent parsedQuery),
       key_entities = sort (map e_text (pq_entities parsedQuery)),
       key_spatial = length (pq_spatialConstraints parsedQuery),
       key_temporal = length (pq_temporalConstraints parsedQuery),
       key_text = trim (toLowerCase originalText) \<rparr>"

definition checkCache :: "'r QueryExecutor \<Rightarrow> int \<Rightarrow> CacheKey \<Rightarrow> 'r final_result QueryResult option" where
  "checkCache ex now cacheKey =
     (case map_get (queryCache ex) cacheKey of
        Some (result, timestamp) \<Rightarrow> if now - timestamp < CACHE_TTL then Some result else None
      | None \<Rightarrow> None)"

definition cacheResult :: "'r QueryExecutor \<Rightarrow> int \<Rightarrow> CacheKey \<Rightarrow> 'r final_result QueryResult
                           \<Rightarrow> 'r QueryExecutor" where
  "cacheResult ex now cacheKey result =
     (let cache = map_set cacheKey (result, now) (queryCache ex)
      in if length cache > 100
         then ex \<lparr> queryCache := map_delete (hd (map_keys cache)) cache \<rparr>
         else ex \<lparr> queryCache := cache \<rparr>)"

definition createExecutionPlan :: "ParsedQuery \<Rightarrow> QueryExecutionPlan" where
  "createExecutionPlan parsedQuery =
     (let spatial = length (pq_spatialConstraints parsedQuery) > 0;
          t = qi_type (pq_intent parsedQuery);
          step1 = (if spatial
                   then [\<lparr> es_id = ''spatial_filter'', es_type = SpatialFilter,
                           es_operation = ''filter_by_spatial_constraints'',
                           es_parameters = ConstraintsParameter (pq_spatialConstraints parsedQuery),
                           es_dependencies = [] \<rparr>]
                   else []);
          step2 = [\<lparr> es_id = ''rag_search'', es_type = RagSearch,
                     es_operation = ''semantic_search'',
                     es_parameters = SearchParameters (pq_intent parsedQuery) (pq_entities parsedQuery)
                                       (pq_filters parsedQuery) (pq_temporalConstraints parsedQuery),
                     es_dependencies = (if spatial then [''spatial_filter''] else []) \<rparr>];
          step3 = (if t = Analyze \<or> t = Compare
                   then [\<lparr> es_id = ''analysis'', es_type = Analysis,
                           es_operation = (if t = Compare then ''compare_features''
                                           else ''analyze_features''),
                           es_parameters =
                             AnalysisParameter
                               (case qi_subtype (pq_intent parsedQuery) of
                                  None \<Rightarrow> ''general''
                                | Some st \<Rightarrow> if st = [] then ''general'' else st),
                           es_dependencies = [''rag_search''] \<rparr>]
                   else []);
          step4 = (if t = Search \<and> length (pq_entities parsedQuery) > 1
                   then [\<lparr> es_id = ''aggregation'', es_type = Aggregation,
                           es_operation = ''aggregate_results'',
                           es_parameters = AggregationParameter ''type'',
                           es_dependencies = [''rag_search''] \<rparr>]
                   else [])
      in \<lparr> plan_steps = step1 @ step2 @ step3 @ step4,
           plan_estimatedCost = 1 + (if spatial then 2 else 0) + 5
                                + (if t = Analyze \<or> t = Compare then 3 else 0)
                                + (if t = Search \<and> length (pq_entities parsedQuery) > 1 then 1 else 0),
           plan_cacheKey = generateCacheKey parsedQuery [] \<rparr>)"

definition executeStep :: "'r Backend \<Rightarrow> ExecutionStep \<Rightarrow> (string, 'r) js_map \<Rightarrow> ParsedQuery
                           \<Rightarrow> string \<Rightarrow> error + 'r" where
  "executeStep b step previousResults parsedQuery originalText =
     (case es_type step of
        SpatialFilter \<Rightarrow> executeSpatialFilter b step parsedQuery
      | RagSearch \<Rightarrow> executeRAGSearch b step parsedQuery originalText previousResults
      | Analysis \<Rightarrow> executeAnalysis b step previousResults
      | Aggregation \<Rightarrow> executeAggregation b step previousResults
      | Join \<Rightarrow> Inl (Error ''Unknown step type: join''))"

fun runSteps :: "'r Backend \<Rightarrow> ExecutionStep list \<Rightarrow> (string, 'r) js_map \<Rightarrow> nat \<Rightarrow> ParsedQuery
                 \<Rightarrow> string \<Rightarrow> error + ((string, 'r) js_map \<times> nat)" where
  "runSteps b [] executedSteps stepsExecuted parsedQuery originalText =
     Inr (executedSteps, stepsExecuted)"
| "runSteps b (step # steps) executedSteps stepsExecuted parsedQuery originalText =
     (if \<not> list_all (\<lambda>dep. map_get executedSteps dep \<noteq> None) (es_dependencies step)
      then Inl (Error (''Dependencies not met for step '' @ es_id step))
      else case executeStep b step executedSteps parsedQuery originalText of
             Inl e \<Rightarrow> Inl e
           | Inr stepResult \<Rightarrow>
               runSteps b steps (map_set (es_id step) stepResult executedSteps)
                        (Suc stepsExecuted) parsedQuery originalText)"

definition getFinalResult :: "(string, 'r) js_map \<Rightarrow> ParsedQuery \<Rightarrow> 'r final_result" where
  "getFinalResult executedSteps parsedQuery =
     (case map_get executedSteps ''rag_search'' of
        None \<Rightarrow> NoSearchResults
      | Some ragResult \<Rightarrow>
          FinalResult ragResult (pq_intent parsedQuery)
            (map_get executedSteps ''analysis'')
            (map_get executedSteps ''aggregation'')
            (map_get executedSteps ''spatial_filter''))"

definition calculateResultConfidence :: "'r Backend \<Rightarrow> 'r final_result \<Rightarrow> ParsedQuery \<Rightarrow> real" where
  "calculateResultConfidence b result parsedQuery =
     (let c0 = pq_confidence parsedQuery * 0.3
      in case result of
           NoSearchResults \<Rightarrow> min c0 1.0
         | FinalResult ragResult _ analysis _ _ \<Rightarrow>
             (let sources = sourceScores b ragResult;
                  c1 = (if length sources > 0
                        then c0 + (foldl (+) 0 sources / real (length sources)) * 0.5
                        else c0);
                  c2 = (if analysis \<noteq> None then c1 + 0.1 else c1);
                  c3 = (if hasQueryLocation b ragResult then c2 + 0.1 else c2)
              in min c3 1.0))"

definition executePlan :: "'r Backend \<Rightarrow> QueryExecutionPlan \<Rightarrow> ParsedQuery \<Rightarrow> string
                           \<Rightarrow> error + 'r final_result QueryResult" where
  "executePlan b plan parsedQuery originalText =
     (case runSteps b (plan_steps plan) [] 0 parsedQuery originalText of
        Inl e \<Rightarrow> Inl e
      | Inr (executedSteps, stepsExecuted) \<Rightarrow>
          (let finalResult = getFinalResult executedSteps parsedQuery
           in Inr \<lparr> qr_success = True, qr_data = Some finalResult,
                    qr_metadata = \<lparr> rm_executionTime = 0, rm_stepsExecuted = stepsExecuted,
                                    rm_cacheHit = False,
                                    rm_confidence = calculateResultConfidence b finalResult parsedQuery \<rparr>,
                    qr_error = None \<rparr>))"

definition executeQuery :: "'r Backend \<Rightarrow> Clock \<Rightarrow> 'r QueryExecutor \<Rightarrow> ParsedQuery \<Rightarrow> string
                            \<Rightarrow> 'r final_result QueryResult \<times> 'r QueryExecutor" where
  "executeQuery b clock ex parsedQuery originalText =
     (let cacheKey = generateCacheKey parsedQuery originalText
      in case checkCache ex (t_check clock) cacheKey of
           Some cached \<Rightarrow>
             (cached \<lparr> qr_metadata := (qr_metadata cached) \<lparr> rm_cacheHit := True \<rparr> \<rparr>, ex)
         | None \<Rightarrow>
             (case executePlan b (createExecutionPlan parsedQuery) parsedQuery originalText of
                Inr result \<Rightarrow>
                  (result \<lparr> qr_metadata := (qr_metadata result)
                              \<lparr> rm_executionTime := t_end clock - t_start clock,
                                rm_cacheHit := False \<rparr> \<rparr>,
                   cacheResult ex (t_cache clock) cacheKey result)
              | Inl (Error message) \<Rightarrow>
                  (\<lparr> qr_success = False, qr_data = None,
                     qr_metadata = \<lparr> rm_executionTime = t_end clock - t_start clock,
                                     rm_stepsExecuted = 0, rm_cacheHit = False, rm_confidence = 0 \<rparr>,
                     qr_error = Some (Message message) \<rparr>,
                   ex)))"


section \<open>Query engine (GeographicQueryEngine)\<close>

record QueryEngineOptions =
  enableCaching :: bool
  maxCacheSize :: nat
  defaultSpatialRadius :: real
  confidenceThreshold :: real


record 'r QueryEngine =
  eng_executor :: "'r QueryExecutor"
  eng_options :: QueryEngineOptions


text \<open>
  \<open>processQuery\<close>. \<open>None\<close> stands for a call that does not return (a loop of the parser
  that does not end); lemma \<open>parseQuery_total_range\<close> shows that this never happens.
\<close>

definition processQuery :: "'r Backend \<Rightarrow> Calendar \<Rightarrow> Clock \<Rightarrow> 'r QueryEngine \<Rightarrow> string
                            \<Rightarrow> ('r final_result QueryResult \<times> 'r QueryEngine) option" where
  "processQuery b cal clock eng queryText =
     (case parseQuery cal queryText of
        None \<Rightarrow> None
      | Some parsedQuery \<Rightarrow>
          if pq_confidence parsedQuery < confidenceThreshold (eng_options eng)
          then Some (\<lparr> qr_success = False, qr_data = None,
                       qr_metadata = \<lparr> rm_executionTime = 0, rm_stepsExecuted = 0,
                                       rm_cacheHit = False,
                                       rm_confidence = pq_confidence parsedQuery \<rparr>,
                       qr_error = Some (BelowThreshold (pq_confidence parsedQuery)) \<rparr>,
                     eng)
          else (case executeQuery b clock (eng_executor eng) parsedQuery queryText of
                  (result, ex) \<Rightarrow> Some (result, eng \<lparr> eng_executor := ex \<rparr>)))"


section \<open>Properties of the query parser and the query engine\<close>

subsection \<open>The parser returns for every input\<close>






















subsection \<open>The cache\<close>







lemma length_map_set_le: "length (map_set k v m) \<le> Suc (length m)"
  by (induction m) auto



lemma length_map_delete_hd:
  "m \<noteq> [] \<Longrightarrow> length (map_delete (hd (map_keys m)) m) < length m"
  by (cases m) (auto simp: map_delete_def map_keys_def intro: le_imp_less_Suc)

lemma cacheResult_length:
  assumes "length (queryCache ex) \<le> 100"
  shows "length (queryCache (cacheResult ex now key result)) \<le> 100"
proof -
  let ?cache = "map_set key (result, now) (queryCache ex)"
  have le: "length ?cache \<le> 101" using assms length_map_set_le [of key "(result, now)" "queryCache ex"] by simp
  show ?thesis
  proof (cases "length ?cache > 100")
    case False
    then show ?thesis by (simp add: cacheResult_def Let_def)
  next
    case True
    then have "?cache \<noteq> []" by auto
    then have "length (map_delete (hd (map_keys ?cache)) ?cache) < length ?cache"
      by (rule length_map_delete_hd)
    then show ?thesis using le True by (simp add: cacheResult_def Let_def)
  qed
qed

subsection \<open>Evaluation of the character functions\<close>

lemma code_table_0:
  "code (CHR ''a'') = 97"
  "code (CHR ''b'') = 98"
  "code (CHR ''c'') = 99"
  "code (CHR ''d'') = 100"
  "code (CHR ''e'') = 101"
  "code (CHR ''f'') = 102"
  "code (CHR ''g'') = 103"
  "code (CHR ''h'') = 104"
  "code (CHR ''i'') = 105"
  "code (CHR ''j'') = 106"
  "code (CHR ''k'') = 107"
  "code (CHR ''l'') = 108"
  by (simp_all add: code_def)

lemma code_table_1:
  "code (CHR ''m'') = 109"
  "code (CHR ''n'') = 110"
  "code (CHR ''o'') = 111"
  "code (CHR ''p'') = 112"
  "code (CHR ''q'') = 113"
  "code (CHR ''r'') = 114"
  "code (CHR ''s'') = 115"
  "code (CHR ''t'') = 116"
  "code (CHR ''u'') = 117"
  "code (CHR ''v'') = 118"
  "code (CHR ''w'') = 119"
  "code (CHR ''x'') = 120"
  by (simp_all add: code_def)

lemma code_table_2:
  "code (CHR ''y'') = 121"
  "code (CHR ''z'') = 122"
  "code (CHR ''A'') = 65"
  "code (CHR ''B'') = 66"
  "code (CHR ''C'') = 67"
  "code (CHR ''D'') = 68"
  "code (CHR ''E'') = 69"
  "code (CHR ''F'') = 70"
  "code (CHR ''G'') = 71"
  "code (CHR ''H'') = 72"
  "code (CHR ''I'') = 73"
  "code (CHR ''J'') = 74"
  by (simp_all add: code_def)

lemma code_table_3:
  "code (CHR ''K'') = 75"
  "code (CHR ''L'') = 76"
  "code (CHR ''M'') = 77"
  "code (CHR ''N'') = 78"
  "code (CHR ''O'') = 79"
  "code (CHR ''P'') = 80"
  "code (CHR ''Q'') = 81"
  "code (CHR ''R'') = 82"
  "code (CHR ''S'') = 83"
  "code (CHR ''T'') = 84"
  "code (CHR ''U'') = 85"
  "code (CHR ''V'') = 86"
  by (simp_all add: code_def)

lemma code_table_4:
  "code (CHR ''W'') = 87"
  "code (CHR ''X'') = 88"
  "code (CHR ''Y'') = 89"
  "code (CHR ''Z'') = 90"
  "code (CHR ''0'') = 48"
  "code (CHR ''1'') = 49"
  "code (CHR ''2'') = 50"
  "code (CHR ''3'') = 51"
  "code (CHR ''4'') = 52"
  "code (CHR ''5'') = 53"
  "code (CHR ''6'') = 54"
  "code (CHR ''7'') = 55"
  by (simp_all add: code_def)

lemma code_table_5:
  "code (CHR ''8'') = 56"
  "code (CHR ''9'') = 57"
  "code (CHR '' '') = 32"
  "code (CHR ''.'') = 46"
  "code (CHR '','') = 44"
  "code (CHR ''-'') = 45"
  "code (CHR '':'') = 58"
  "code (CHR ''/'') = 47"
  "code (CHR ''>'') = 62"
  "code (CHR ''_'') = 95"
  by (simp_all add: code_def)

lemma char_of_table_0:
  "char_of (65::nat) = CHR ''A''"
  "char_of (66::nat) = CHR ''B''"
  "char_of (67::nat) = CHR ''C''"
  "char_of (68::nat) = CHR ''D''"
  "char_of (69::nat) = CHR ''E''"
  "char_of (70::nat) = CHR ''F''"
  "char_of (71::nat) = CHR ''G''"
  "char_of (72::nat) = CHR ''H''"
  "char_of (73::nat) = CHR ''I''"
  "char_of (74::nat) = CHR ''J''"
  "char_of (75::nat) = CHR ''K''"
  "char_of (76::nat) = CHR ''L''"
  "char_of (77::nat) = CHR ''M''"
  by (rule of_char_eqI [where ?'a = nat], simp)+

lemma char_of_table_1:
  "char_of (78::nat) = CHR ''N''"
  "char_of (79::nat) = CHR ''O''"
  "char_of (80::nat) = CHR ''P''"
  "char_of (81::nat) = CHR ''Q''"
  "char_of (82::nat) = CHR ''R''"
  "char_of (83::nat) = CHR ''S''"
  "char_of (84::nat) = CHR ''T''"
  "char_of (85::nat) = CHR ''U''"
  "char_of (86::nat) = CHR ''V''"
  "char_of (87::nat) = CHR ''W''"
  "char_of (88::nat) = CHR ''X''"
  "char_of (89::nat) = CHR ''Y''"
  "char_of (90::nat) = CHR ''Z''"
  by (rule of_char_eqI [where ?'a = nat], simp)+

lemma char_of_table_2:
  "char_of (97::nat) = CHR ''a''"
  "char_of (98::nat) = CHR ''b''"
  "char_of (99::nat) = CHR ''c''"
  "char_of (100::nat) = CHR ''d''"
  "char_of (101::nat) = CHR ''e''"
  "char_of (102::nat) = CHR ''f''"
  "char_of (103::nat) = CHR ''g''"
  "char_of (104::nat) = CHR ''h''"
  "char_of (105::nat) = CHR ''i''"
  "char_of (106::nat) = CHR ''j''"
  "char_of (107::nat) = CHR ''k''"
  "char_of (108::nat) = CHR ''l''"
  "char_of (109::nat) = CHR ''m''"
  by (rule of_char_eqI [where ?'a = nat], simp)+

lemma char_of_table_3:
  "char_of (110::nat) = CHR ''n''"
  "char_of (111::nat) = CHR ''o''"
  "char_of (112::nat) = CHR ''p''"
  "char_of (113::nat) = CHR ''q''"
  "char_of (114::nat) = CHR ''r''"
  "char_of (115::nat) = CHR ''s''"
  "char_of (116::nat) = CHR ''t''"
  "char_of (117::nat) = CHR ''u''"
  "char_of (118::nat) = CHR ''v''"
  "char_of (119::nat) = CHR ''w''"
  "char_of (120::nat) = CHR ''x''"
  "char_of (121::nat) = CHR ''y''"
  "char_of (122::nat) = CHR ''z''"
  by (rule of_char_eqI [where ?'a = nat], simp)+

lemmas char_table = code_table_0 code_table_1 code_table_2 code_table_3 code_table_4 code_table_5 char_of_table_0 char_of_table_1 char_of_table_2 char_of_table_3

lemma code_char_of: "n < 256 \<Longrightarrow> code (char_of n) = n"
  by (simp add: code_def)

lemma char_of_code: "char_of (code c) = c"
  by (simp add: code_def)

lemma code_less: "code c < 256"
  by (simp add: code_def)

lemma canonicalize_idem: "canonicalize (canonicalize c) = canonicalize c"
proof (cases "isLower c")
  case True
  then have a: "code c - 32 < 256" and b: "\<not> (97 \<le> code c - 32 \<and> code c - 32 \<le> 122)"
    by (auto simp: isLower_def)
  have "\<not> isLower (char_of (code c - 32))"
    using b by (simp add: isLower_def code_char_of [OF a])
  then show ?thesis using True
    by (simp add: canonicalize_def)
next
  case False
  then show ?thesis by (simp add: canonicalize_def)
qed

text \<open>
  A closed form of the case-insensitive range, for evaluation: the canonical form of
  the character lies in the range, or it is a capital whose small letter does.
\<close>

lemma item_matches_Range_ic:
  "item_matches True c (Range lo hi) \<longleftrightarrow>
     (code lo \<le> code (canonicalize c) \<and> code (canonicalize c) \<le> code hi)
     \<or> (isUpper (canonicalize c) \<and> code lo \<le> code (canonicalize c) + 32
         \<and> code (canonicalize c) + 32 \<le> code hi)"
  (is "?L \<longleftrightarrow> ?A \<or> ?B")
proof
  assume ?L
  then obtain n where n: "code lo \<le> n" "n \<le> code hi" "canonicalize (char_of n) = canonicalize c"
    by (auto simp: list_ex_iff simp del: upt_Suc)
  have n256: "n < 256" using n(2) code_less [of hi] by simp
  show "?A \<or> ?B"
  proof (cases "97 \<le> n \<and> n \<le> 122")
    case True
    then have "canonicalize (char_of n) = char_of (n - 32)"
      using n256 by (simp add: canonicalize_def isLower_def code_char_of)
    then have "code (canonicalize c) = n - 32"
      using n(3) n256 code_char_of [of "n - 32"] by simp
    then have ?B using True n(1,2) unfolding isUpper_def by arith
    then show ?thesis ..
  next
    case False
    then have "canonicalize (char_of n) = char_of n"
      using n256 by (auto simp: canonicalize_def isLower_def code_char_of)
    then have "code (canonicalize c) = n"
      using n(3) n256 code_char_of [of n] by simp
    then have ?A using n by simp
    then show ?thesis ..
  qed
next
  assume "?A \<or> ?B"
  then show ?L
  proof
    assume a: ?A
    have "canonicalize (char_of (code (canonicalize c))) = canonicalize c"
      by (simp add: char_of_code canonicalize_idem)
    moreover have "code (canonicalize c) \<in> set [code lo..<Suc (code hi)]"
      using a by (simp del: upt_Suc)
    ultimately show ?L by (simp only: item_matches.simps if_True list_ex_iff) blast
  next
    assume b: ?B
    define u where "u = code (canonicalize c)"
    have u: "65 \<le> u" "u \<le> 90" using b by (simp_all add: isUpper_def u_def)
    have "canonicalize (char_of (u + 32)) = char_of u"
      using u by (simp add: canonicalize_def isLower_def code_char_of)
    then have "canonicalize (char_of (u + 32)) = canonicalize c"
      by (simp add: u_def char_of_code)
    moreover have "u + 32 \<in> set [code lo..<Suc (code hi)]"
      using b by (simp add: u_def del: upt_Suc)
    ultimately show ?L by (simp only: item_matches.simps if_True list_ex_iff) blast
  qed
qed

lemmas char_eval = char_table isDigit_def isUpper_def isLower_def isWordChar_def isSpace_def
  canonicalize_def lowerChar_def

lemmas regex_eval = lit_def seqs_def Plus_def LazyPlus_def Opt_def startOf_def digit_def
  whitespace_def letters_def capital_def decimal_def unitWords_def isoDate_def
  item_matches_Range_ic exec.simps execAll.simps

lemmas pattern_defs = LOCATION_PATTERNS_def LOCATION_PATTERN_1_def LOCATION_PATTERN_2_def
  LOCATION_PATTERN_3_def coordPattern_def DISTANCE_PATTERNS_def DISTANCE_PATTERN_1_def
  DISTANCE_PATTERN_2_def TIME_PATTERNS_def TIME_PATTERN_1_def TIME_PATTERN_2_def
  TIME_PATTERN_3_def featurePattern_def FEATURE_TYPES_def







subsection \<open>The confidence gate and the cache\<close>

definition exampleCalendar :: Calendar where
  "exampleCalendar =
     \<lparr> cal_today = ''2024-06-01'', cal_daysAgo = (\<lambda>n. ''2024-05-01''),
       cal_monthsAgo = (\<lambda>n. ''2024-01-01''), cal_yearsAgo = (\<lambda>n. ''2023-06-01'') \<rparr>"















lemma processQuery_keeps_cache_size:
  assumes "length (queryCache (eng_executor eng)) \<le> 100"
    and "processQuery b cal clock eng queryText = Some (r, eng')"
  shows "length (queryCache (eng_executor eng')) \<le> 100"
  using assms cacheResult_length [OF assms(1)]
  by (auto simp: processQuery_def executeQuery_def Let_def
           split: option.splits if_splits sum.splits error.splits)

subsection \<open>The query about national parks\<close>

definition parksQuery :: string where
  "parksQuery = ''Find national parks within 50km of Los Angeles''"

definition parksEntities :: "ExtractedEntity list" where
  "parksEntities =
     [\<lparr> e_text = ''parks'', e_type = FeatureType, e_value = TextValue ''park'',
        e_confidence = 0.9, e_start = 14, e_end = 19 \<rparr>,
      \<lparr> e_text = ''50km'', e_type = Measurement, e_value = MeasureValue (Num 50) Km,
        e_confidence = 0.95, e_start = 27, e_end = 31 \<rparr>,
      \<lparr> e_text = ''within 50km'', e_type = Measurement, e_value = MeasureValue (Num 50) Km,
        e_confidence = 0.95, e_start = 20, e_end = 31 \<rparr>]"

lemma parks_location_1: "execAll True LOCATION_PATTERN_1 (startOf parksQuery) = Some []"
  by (simp add: parksQuery_def pattern_defs regex_eval char_eval del: item_matches.simps(2))

lemma parks_location_2: "execAll True LOCATION_PATTERN_2 (startOf parksQuery) = Some []"
  by (simp add: parksQuery_def pattern_defs regex_eval char_eval del: item_matches.simps(2))

lemma parks_location_3: "execAll False LOCATION_PATTERN_3 (startOf parksQuery) = Some []"
  by (simp add: parksQuery_def pattern_defs regex_eval char_eval del: item_matches.simps(2))

lemma parks_coordinates: "execAll False coordPattern (startOf parksQuery) = Some []"
  by (simp add: parksQuery_def pattern_defs regex_eval char_eval del: item_matches.simps(2))

lemma parks_locations:
  "forEachPattern LOCATION_PATTERNS parksQuery (locationEntityOf parksQuery) = Some []"
  by (simp add: LOCATION_PATTERNS_def parks_location_1 parks_location_2 parks_location_3)

lemma parks_features_0:
  "execAll True (featurePattern ''city'') (startOf parksQuery) = Some []"
  "execAll True (featurePattern ''town'') (startOf parksQuery) = Some []"
  "execAll True (featurePattern ''village'') (startOf parksQuery) = Some []"
  by (simp_all add: parksQuery_def pattern_defs regex_eval char_eval del: item_matches.simps(2))

lemma parks_features_1:
  "execAll True (featurePattern ''mountain'') (startOf parksQuery) = Some []"
  "execAll True (featurePattern ''river'') (startOf parksQuery) = Some []"
  "execAll True (featurePattern ''lake'') (startOf parksQuery) = Some []"
  by (simp_all add: parksQuery_def pattern_defs regex_eval char_eval del: item_matches.simps(2))

lemma parks_features_2:
  "execAll True (featurePattern ''forest'') (startOf parksQuery) = Some []"
  "execAll True (featurePattern ''park'') (startOf parksQuery) =
     Some [\<lparr> m_index = 14,
              m_end = \<lparr> cur_afterWord = True, cur_rest = '' within 50km of Los Angeles'', cur_pos = 19 \<rparr>,
              m_groups = [] \<rparr>]"
  "execAll True (featurePattern ''building'') (startOf parksQuery) = Some []"
  by (simp_all add: parksQuery_def pattern_defs regex_eval char_eval del: item_matches.simps(2))

lemma parks_features_3:
  "execAll True (featurePattern ''road'') (startOf parksQuery) = Some []"
  "execAll True (featurePattern ''highway'') (startOf parksQuery) = Some []"
  "execAll True (featurePattern ''airport'') (startOf parksQuery) = Some []"
  by (simp_all add: parksQuery_def pattern_defs regex_eval char_eval del: item_matches.simps(2))

lemma parks_features_4:
  "execAll True (featurePattern ''hospital'') (startOf parksQuery) = Some []"
  "execAll True (featurePattern ''school'') (startOf parksQuery) = Some []"
  "execAll True (featurePattern ''restaurant'') (startOf parksQuery) = Some []"
  by (simp_all add: parksQuery_def pattern_defs regex_eval char_eval del: item_matches.simps(2))

lemma parks_features_5:
  "execAll True (featurePattern ''vegetation'') (startOf parksQuery) = Some []"
  "execAll True (featurePattern ''water'') (startOf parksQuery) = Some []"
  "execAll True (featurePattern ''urban'') (startOf parksQuery) = Some []"
  by (simp_all add: parksQuery_def pattern_defs regex_eval char_eval del: item_matches.simps(2))

lemma parks_features_6:
  "execAll True (featurePattern ''agriculture'') (startOf parksQuery) = Some []"
  "execAll True (featurePattern ''desert'') (startOf parksQuery) = Some []"
  "execAll True (featurePattern ''coastline'') (startOf parksQuery) = Some []"
  by (simp_all add: parksQuery_def pattern_defs regex_eval char_eval del: item_matches.simps(2))

lemmas parks_features = parks_features_0 parks_features_1 parks_features_2 parks_features_3 parks_features_4 parks_features_5 parks_features_6

lemma parks_featureEntities:
  "featureEntities FEATURE_TYPES parksQuery =
     Some [\<lparr> e_text = ''parks'', e_type = FeatureType, e_value = TextValue ''park'',
              e_confidence = 0.9, e_start = 14, e_end = 19 \<rparr>]"
  by (simp add: FEATURE_TYPES_def parks_features featureEntityOf_def matchText_def substring_def)
     (simp add: parksQuery_def)

lemma parks_distance_1:
  "execAll True DISTANCE_PATTERN_1 (startOf parksQuery) =
     Some [\<lparr> m_index = 27,
              m_end = \<lparr> cur_afterWord = True, cur_rest = '' of Los Angeles'', cur_pos = 31 \<rparr>,
              m_groups = [(2, 29, 31), (1, 27, 29)] \<rparr>]"
  by (simp add: parksQuery_def pattern_defs regex_eval char_eval del: item_matches.simps(2))

lemma parks_distance_2:
  "execAll True DISTANCE_PATTERN_2 (startOf parksQuery) =
     Some [\<lparr> m_index = 20,
              m_end = \<lparr> cur_afterWord = True, cur_rest = '' of Los Angeles'', cur_pos = 31 \<rparr>,
              m_groups = [(2, 29, 31), (1, 27, 29)] \<rparr>]"
  by (simp add: parksQuery_def pattern_defs regex_eval char_eval del: item_matches.simps(2))

lemma parks_measurements:
  "forEachPattern DISTANCE_PATTERNS parksQuery (measurementEntityOf parksQuery) =
     Some [\<lparr> e_text = ''50km'', e_type = Measurement, e_value = MeasureValue (Num 50) Km,
              e_confidence = 0.95, e_start = 27, e_end = 31 \<rparr>,
           \<lparr> e_text = ''within 50km'', e_type = Measurement, e_value = MeasureValue (Num 50) Km,
              e_confidence = 0.95, e_start = 20, e_end = 31 \<rparr>]"
  by (simp add: DISTANCE_PATTERNS_def parks_distance_1 parks_distance_2 measurementEntityOf_def
        matchText_def groupOrEmpty_def groupText_def substring_def Let_def)
     (simp add: parksQuery_def parseFloat_def digitsValue_def normalizeUnit_def toLowerCase_def
        char_eval Let_def)

lemma parks_entities: "extractEntities parksQuery = Some parksEntities"
  by (simp add: extractEntities_def parks_locations parks_coordinates parks_featureEntities
        parks_measurements parksEntities_def)

lemma parks_normalized:
  "trim (toLowerCase parksQuery) = ''find national parks within 50km of los angeles''"
  by (simp add: parksQuery_def trim_def toLowerCase_def char_eval)

lemma parks_time_1:
  "execAll True TIME_PATTERN_1 (startOf ''find national parks within 50km of los angeles'') = Some []"
  by (simp add: pattern_defs regex_eval char_eval del: item_matches.simps(2))

lemma parks_time_2:
  "execAll True TIME_PATTERN_2 (startOf ''find national parks within 50km of los angeles'') = Some []"
  by (simp add: pattern_defs regex_eval char_eval del: item_matches.simps(2))

lemma parks_time_3:
  "execAll True TIME_PATTERN_3 (startOf ''find national parks within 50km of los angeles'') = Some []"
  by (simp add: pattern_defs regex_eval char_eval del: item_matches.simps(2))

lemma parks_temporal:
  "extractTemporalConstraints cal ''find national parks within 50km of los angeles'' = Some []"
  by (simp add: extractTemporalConstraints_def TIME_PATTERNS_def parks_time_1 parks_time_2
        parks_time_3)

lemma parks_intent:
  "extractIntent ''find national parks within 50km of los angeles'' =
     \<lparr> qi_type = Search, qi_subtype = None,
       qi_description = ''Search for geographic information'' \<rparr>"
  by (simp add: extractIntent_def bestIntent_def keywordScore_def INTENT_KEYWORDS_def
        generateIntentDescription_def)

lemma parks_filters: "extractFilters ''find national parks within 50km of los angeles'' = []"
  by (simp add: extractFilters_def)

lemma parks_constraints: "extractSpatialConstraints parksQuery parksEntities = []"
  by (simp add: extractSpatialConstraints_def parksEntities_def parksQuery_def)

lemma parks_parse:
  "parseQuery cal parksQuery =
     Some \<lparr> pq_intent = \<lparr> qi_type = Search, qi_subtype = None,
                           qi_description = ''Search for geographic information'' \<rparr>,
            pq_entities = parksEntities, pq_spatialConstraints = [],
            pq_temporalConstraints = [], pq_filters = [], pq_confidence = 74 / 75 \<rparr>"
  by (simp add: parseQuery_def parks_normalized parks_entities parks_temporal parks_intent
        parks_filters parks_constraints calculateParsingConfidence_def)
     (simp add: parksEntities_def)

text \<open>
  Claim C5, as stated, fails on its last part. The parser derives a \<open>radius\<close> constraint
  from a coordinate pair only; the text has none (the name after \<open>of\<close> is not even
  extracted as a location), and the list of spatial constraints is empty.
\<close>

theorem parks_query_has_no_spatial_constraint:
  "map_option pq_spatialConstraints (parseQuery exampleCalendar parksQuery) = Some []
   \<and> map_option (\<lambda>pq. list_ex (\<lambda>c. con_type c = CRadius) (pq_spatialConstraints pq))
        (parseQuery exampleCalendar parksQuery) = Some False"
  by (simp add: parks_parse)

text \<open>
  Claim C5, as the code has it. Parsing \<open>Find national parks within 50km of Los Angeles\<close>
  yields the intent \<open>search\<close>, the feature type entity \<open>park\<close> (for the text \<open>parks\<close>), two
  measurement entities \<open>{50, km}\<close> (one for each distance pattern), no location entity
  and no spatial constraint.
\<close>

theorem parseQuery_parks_query:
  "parseQuery cal parksQuery =
     Some \<lparr> pq_intent = \<lparr> qi_type = Search, qi_subtype = None,
                           qi_description = ''Search for geographic information'' \<rparr>,
            pq_entities =
              [\<lparr> e_text = ''parks'', e_type = FeatureType, e_value = TextValue ''park'',
                 e_confidence = 0.9, e_start = 14, e_end = 19 \<rparr>,
               \<lparr> e_text = ''50km'', e_type = Measurement, e_value = MeasureValue (Num 50) Km,
                 e_confidence = 0.95, e_start = 27, e_end = 31 \<rparr>,
               \<lparr> e_text = ''within 50km'', e_type = Measurement,
                 e_value = MeasureValue (Num 50) Km,
                 e_confidence = 0.95, e_start = 20, e_end = 31 \<rparr>],
            pq_spatialConstraints = [],
            pq_temporalConstraints = [], pq_filters = [], pq_confidence = 74 / 75 \<rparr>"
  by (simp add: parks_parse parksEntities_def)

theorem parseQuery_parks_query_witness:
  "map_option (\<lambda>pq. qi_type (pq_intent pq)) (parseQuery exampleCalendar parksQuery) = Some Search
   \<and> map_option (\<lambda>pq. map e_value (pq_entities pq)) (parseQuery exampleCalendar parksQuery)
       = Some [TextValue ''park'', MeasureValue (Num 50) Km, MeasureValue (Num 50) Km]"
  by (simp add: parseQuery_parks_query [of exampleCalendar])

end
